theory Spec2Isabelle
  imports Main
begin

section \<open>Python text\<close>

text \<open>
  A Python \<open>str\<close> is a sequence of Unicode code points; a code point is a natural number.
  \<open>str\<close> turns an ASCII literal of the source into such a sequence.
\<close>

type_synonym pystr = "nat list"

definition str :: "string \<Rightarrow> pystr" where
  "str cs = map of_char cs"

text \<open>
  \<open>str.strip()\<close> without argument and the pattern class \<open>\s\<close> of a text pattern both
  ask CPython's \<open>Py_UNICODE_ISSPACE\<close>. The code points it accepts (CPython 3.4 and later):
\<close>

definition isspace :: "nat \<Rightarrow> bool" where
  "isspace c \<longleftrightarrow>
     (9 \<le> c \<and> c \<le> 13) \<or> (28 \<le> c \<and> c \<le> 32) \<or> c = 133 \<or> c = 160 \<or> c = 5760 \<or>
     (8192 \<le> c \<and> c \<le> 8202) \<or> c = 8232 \<or> c = 8233 \<or> c = 8239 \<or> c = 8287 \<or> c = 12288"

definition lstrip :: "pystr \<Rightarrow> pystr" where
  "lstrip s = dropWhile isspace s"

definition rstrip :: "pystr \<Rightarrow> pystr" where
  "rstrip s = rev (dropWhile isspace (rev s))"

definition strip :: "pystr \<Rightarrow> pystr" where
  "strip s = lstrip (rstrip s)"

text \<open>
  What the program uses of the interpreter's library and cannot be read off its own source:
  the table behind the pattern class \<open>\d\<close> (Unicode category Nd, which grows with every
  Unicode version), \<open>str.upper\<close> and \<open>str.title\<close> on arbitrary text, and whether
  \<open>datetime.strptime(fecha, '%Y-%m-%d')\<close> returns. They are parameters of the model.
\<close>

record pylib =
  isdecimal :: "nat \<Rightarrow> bool"
  upper :: "pystr \<Rightarrow> pystr"
  title :: "pystr \<Rightarrow> pystr"
  strptime_ok :: "pystr \<Rightarrow> bool"

text \<open>
  \<open>re.match(r'^...$', t)\<close>: the pattern is anchored at the start, and \<open>$\<close> matches at the
  end of \<open>t\<close> and also just before a line feed that ends \<open>t\<close>. \<open>dollar t\<close> lists the
  prefixes of \<open>t\<close> the body of the pattern may cover.
\<close>

definition dollar :: "pystr \<Rightarrow> pystr list" where
  "dollar t = t # (if t \<noteq> [] \<and> last t = 10 then [butlast t] else [])"

text \<open>
  The character class of the name pattern: \<open>a-z\<close>, \<open>A-Z\<close>, the vowels with acute accent
  in lower case (U+00E1, U+00E9, U+00ED, U+00F3, U+00FA) and upper case (U+00C1, U+00C9,
  U+00CD, U+00D3, U+00DA), n with tilde (U+00F1, U+00D1), and \<open>\s\<close>.
\<close>

definition clase_nombre :: "nat \<Rightarrow> bool" where
  "clase_nombre c \<longleftrightarrow>
     (97 \<le> c \<and> c \<le> 122) \<or> (65 \<le> c \<and> c \<le> 90) \<or>
     c \<in> {225, 233, 237, 243, 250, 193, 201, 205, 211, 218, 241, 209} \<or> isspace c"

definition re_nombre :: "pystr \<Rightarrow> bool" where
  "re_nombre t = list_ex (\<lambda>u. u \<noteq> [] \<and> list_all clase_nombre u) (dollar t)"

definition re_documento :: "pylib \<Rightarrow> pystr \<Rightarrow> bool" where
  "re_documento L t =
     list_ex (\<lambda>u. 5 \<le> length u \<and> length u \<le> 12 \<and> list_all (isdecimal L) u) (dollar t)"

definition re_numero_vuelo :: "pylib \<Rightarrow> pystr \<Rightarrow> bool" where
  "re_numero_vuelo L t =
     list_ex (\<lambda>u. list_ex (\<lambda>k. list_ex (\<lambda>m.
         length u = k + m \<and> list_all (\<lambda>c. 65 \<le> c \<and> c \<le> 90) (take k u) \<and>
         list_all (isdecimal L) (drop k u)) [3, 4]) [1, 2, 3]) (dollar t)"

section \<open>Errors\<close>

text \<open>
  The two exception classes the program raises, \<open>ValueError\<close> and its own
  \<open>ReservaException\<close>, each with the message of the raise statement.
\<close>

datatype mensaje =
    NombreVacio | NombreCorto | NombreSoloLetras
  | DocumentoVacio | DocumentoDigitos
  | NumeroVueloVacio | NumeroVueloFormato
  | CiudadVacia | CiudadCorta | FechaFormato
  | CapacidadNoPositiva | CapacidadExcede
  | SinCapacidad | ReservaActivaExistente
  | SoloCancelarActivas | SoloCompletarActivas
  | PasajeroYaExiste | PasajeroNoEncontrado | VueloNoEncontrado

datatype error = ValueError mensaje | ReservaException mensaje

datatype EstadoReserva = ACTIVA | CANCELADA | COMPLETADA

section \<open>Pasajero\<close>

record Pasajero =
  nombre :: pystr
  apellido :: pystr
  documento :: pystr

definition validar_nombre :: "pylib \<Rightarrow> pystr \<Rightarrow> error + pystr" where
  "validar_nombre L n =
     (if n = [] \<or> strip n = [] then Inl (ValueError NombreVacio)
      else if length (strip n) < 2 then Inl (ValueError NombreCorto)
      else if \<not> re_nombre (strip n) then Inl (ValueError NombreSoloLetras)
      else Inr (title L (strip n)))"

definition validar_documento :: "pylib \<Rightarrow> pystr \<Rightarrow> error + pystr" where
  "validar_documento L d =
     (if d = [] \<or> strip d = [] then Inl (ValueError DocumentoVacio)
      else if \<not> re_documento L (strip d) then Inl (ValueError DocumentoDigitos)
      else Inr (strip d))"

text \<open>\<open>Pasajero.__init__\<close>: the three validations in the order of the source.\<close>

definition Pasajero_init :: "pylib \<Rightarrow> pystr \<Rightarrow> pystr \<Rightarrow> pystr \<Rightarrow> error + Pasajero" where
  "Pasajero_init L n a d =
     (case validar_nombre L n of Inl e \<Rightarrow> Inl e | Inr n' \<Rightarrow>
       (case validar_nombre L a of Inl e \<Rightarrow> Inl e | Inr a' \<Rightarrow>
         (case validar_documento L d of Inl e \<Rightarrow> Inl e | Inr d' \<Rightarrow>
            Inr \<lparr>nombre = n', apellido = a', documento = d'\<rparr>)))"

section \<open>Vuelo and Reserva\<close>

text \<open>
  Flights and reservations are mutable objects that several places refer to: a reservation
  sits in its flight's list and in the registry's history, and \<open>cancelar\<close> changes it for
  both. So they live in a store, and a reference is the object's address there (its index;
  a new object takes the next free address, as Python never reuses a live object). A
  passenger is held by value: no operation modelled here assigns to a passenger's fields.
\<close>

record Vuelo =
  numero :: pystr
  origen :: pystr
  destino :: pystr
  fecha :: pystr
  capacidad_total :: int
  reservas :: "nat list"

record Reserva =
  vuelo :: nat
  pasajero :: Pasajero
  estado :: EstadoReserva
  fecha_reserva :: pystr

text \<open>
  The store, with the three lists of the one \<open>GestorReservas\<close> instance
  (\<open>_pasajeros\<close>, \<open>_vuelos\<close>, \<open>_reservas\<close>).
\<close>

record mundo =
  vuelos_obj :: "Vuelo list"
  reservas_obj :: "Reserva list"
  pasajeros_g :: "Pasajero list"
  vuelos_g :: "nat list"
  reservas_g :: "nat list"

text \<open>What \<open>__eq__\<close> may be handed: \<open>isinstance\<close> tells the cases apart.\<close>

datatype pyobj = ObjPasajero Pasajero | ObjVuelo Vuelo | ObjOtro

definition Pasajero_eq :: "Pasajero \<Rightarrow> pyobj \<Rightarrow> bool" where
  "Pasajero_eq p other =
     (case other of ObjPasajero q \<Rightarrow> documento p = documento q | _ \<Rightarrow> False)"

definition Vuelo_eq :: "Vuelo \<Rightarrow> pyobj \<Rightarrow> bool" where
  "Vuelo_eq v other =
     (case other of ObjVuelo w \<Rightarrow> numero v = numero w | _ \<Rightarrow> False)"

subsection \<open>Vuelo\<close>

definition validar_numero_vuelo :: "pylib \<Rightarrow> pystr \<Rightarrow> error + pystr" where
  "validar_numero_vuelo L n =
     (if n = [] \<or> strip n = [] then Inl (ValueError NumeroVueloVacio)
      else if \<not> re_numero_vuelo L (upper L (strip n)) then Inl (ValueError NumeroVueloFormato)
      else Inr (upper L (strip n)))"

definition validar_ciudad :: "pylib \<Rightarrow> pystr \<Rightarrow> error + pystr" where
  "validar_ciudad L c =
     (if c = [] \<or> strip c = [] then Inl (ValueError CiudadVacia)
      else if length (strip c) < 2 then Inl (ValueError CiudadCorta)
      else Inr (title L (strip c)))"

definition validar_fecha :: "pylib \<Rightarrow> pystr \<Rightarrow> error + pystr" where
  "validar_fecha L f = (if strptime_ok L f then Inr f else Inl (ValueError FechaFormato))"

text \<open>The declared type of \<open>capacidad\<close> is \<open>int\<close>, so the \<open>isinstance\<close> test passes.\<close>

definition validar_capacidad :: "int \<Rightarrow> error + int" where
  "validar_capacidad c =
     (if c \<le> 0 then Inl (ValueError CapacidadNoPositiva)
      else if c > 1000 then Inl (ValueError CapacidadExcede)
      else Inr c)"

text \<open>\<open>Vuelo.__init__\<close>: on success the new object is stored at the next address.\<close>

definition Vuelo_init ::
  "pylib \<Rightarrow> pystr \<Rightarrow> pystr \<Rightarrow> pystr \<Rightarrow> pystr \<Rightarrow> int \<Rightarrow> mundo \<Rightarrow> (error + nat) \<times> mundo" where
  "Vuelo_init L n ori des fe cap s =
     (case validar_numero_vuelo L n of Inl e \<Rightarrow> (Inl e, s) | Inr n' \<Rightarrow>
       (case validar_ciudad L ori of Inl e \<Rightarrow> (Inl e, s) | Inr ori' \<Rightarrow>
         (case validar_ciudad L des of Inl e \<Rightarrow> (Inl e, s) | Inr des' \<Rightarrow>
           (case validar_fecha L fe of Inl e \<Rightarrow> (Inl e, s) | Inr fe' \<Rightarrow>
             (case validar_capacidad cap of Inl e \<Rightarrow> (Inl e, s) | Inr cap' \<Rightarrow>
                (Inr (length (vuelos_obj s)),
                 s\<lparr>vuelos_obj := vuelos_obj s @
                    [\<lparr>numero = n', origen = ori', destino = des', fecha = fe',
                      capacidad_total = cap', reservas = []\<rparr>]\<rparr>))))))"

text \<open>
  \<open>capacidad_disponible\<close> of the flight at address \<open>f\<close>: the list comprehension over
  \<open>_reservas\<close>, read through the store.
\<close>

definition reservas_activas :: "mundo \<Rightarrow> nat \<Rightarrow> nat list" where
  "reservas_activas s f =
     filter (\<lambda>r. estado (reservas_obj s ! r) = ACTIVA) (reservas (vuelos_obj s ! f))"

definition capacidad_disponible :: "mundo \<Rightarrow> nat \<Rightarrow> int" where
  "capacidad_disponible s f =
     capacidad_total (vuelos_obj s ! f) - int (length (reservas_activas s f))"

text \<open>The loop of \<open>agregar_reserva\<close>: does it reach its \<open>raise\<close>?\<close>

primrec reserva_activa_de :: "Reserva list \<Rightarrow> Pasajero \<Rightarrow> nat list \<Rightarrow> bool" where
  "reserva_activa_de h p [] = False"
| "reserva_activa_de h p (r # rs) =
     (if Pasajero_eq (pasajero (h ! r)) (ObjPasajero p) \<and> estado (h ! r) = ACTIVA then True
      else reserva_activa_de h p rs)"

definition agregar_reserva :: "nat \<Rightarrow> nat \<Rightarrow> mundo \<Rightarrow> (error + unit) \<times> mundo" where
  "agregar_reserva f r s =
     (if capacidad_disponible s f \<le> 0 then (Inl (ReservaException SinCapacidad), s)
      else if reserva_activa_de (reservas_obj s) (pasajero (reservas_obj s ! r))
                (reservas (vuelos_obj s ! f))
      then (Inl (ReservaException ReservaActivaExistente), s)
      else (Inr (),
            s\<lparr>vuelos_obj := (vuelos_obj s)
               [f := (vuelos_obj s ! f)\<lparr>reservas := reservas (vuelos_obj s ! f) @ [r]\<rparr>]\<rparr>))"

subsection \<open>Reserva\<close>

text \<open>
  \<open>Reserva.__init__\<close>; \<open>ahora\<close> is the text \<open>datetime.now().strftime(...)\<close> gives at the
  call.
\<close>

definition Reserva_init :: "pystr \<Rightarrow> nat \<Rightarrow> Pasajero \<Rightarrow> mundo \<Rightarrow> nat \<times> mundo" where
  "Reserva_init ahora v p s =
     (length (reservas_obj s),
      s\<lparr>reservas_obj := reservas_obj s @
         [\<lparr>vuelo = v, pasajero = p, estado = ACTIVA, fecha_reserva = ahora\<rparr>]\<rparr>)"

definition cancelar :: "nat \<Rightarrow> mundo \<Rightarrow> (error + unit) \<times> mundo" where
  "cancelar r s =
     (if estado (reservas_obj s ! r) \<noteq> ACTIVA
      then (Inl (ReservaException SoloCancelarActivas), s)
      else (Inr (),
            s\<lparr>reservas_obj := (reservas_obj s)[r := (reservas_obj s ! r)\<lparr>estado := CANCELADA\<rparr>]\<rparr>))"

definition completar :: "nat \<Rightarrow> mundo \<Rightarrow> (error + unit) \<times> mundo" where
  "completar r s =
     (if estado (reservas_obj s ! r) \<noteq> ACTIVA
      then (Inl (ReservaException SoloCompletarActivas), s)
      else (Inr (),
            s\<lparr>reservas_obj := (reservas_obj s)[r := (reservas_obj s ! r)\<lparr>estado := COMPLETADA\<rparr>]\<rparr>))"

section \<open>GestorReservas\<close>

definition agregar_pasajero ::
  "pylib \<Rightarrow> pystr \<Rightarrow> pystr \<Rightarrow> pystr \<Rightarrow> mundo \<Rightarrow> (error + Pasajero) \<times> mundo" where
  "agregar_pasajero L n a d s =
     (if list_ex (\<lambda>p. documento p = d) (pasajeros_g s)
      then (Inl (ReservaException PasajeroYaExiste), s)
      else (case Pasajero_init L n a d of
              Inl e \<Rightarrow> (Inl e, s)
            | Inr p \<Rightarrow> (Inr p, s\<lparr>pasajeros_g := pasajeros_g s @ [p]\<rparr>)))"

definition buscar_pasajero_por_documento :: "mundo \<Rightarrow> pystr \<Rightarrow> Pasajero option" where
  "buscar_pasajero_por_documento s d = find (\<lambda>p. documento p = d) (pasajeros_g s)"

definition buscar_vuelo_por_numero :: "mundo \<Rightarrow> pystr \<Rightarrow> nat option" where
  "buscar_vuelo_por_numero s n = find (\<lambda>f. numero (vuelos_obj s ! f) = n) (vuelos_g s)"

text \<open>
  \<open>crear_reserva\<close>. A \<open>Pasajero\<close> and a \<open>Vuelo\<close> object are always true in \<open>if not ...\<close>
  (neither class defines \<open>__bool__\<close> or \<open>__len__\<close>), so only \<open>None\<close> takes the two
  \<open>raise\<close> branches. The store comes back in every case: what was done before a \<open>raise\<close>
  stays done.
\<close>

definition crear_reserva :: "pystr \<Rightarrow> pystr \<Rightarrow> pystr \<Rightarrow> mundo \<Rightarrow> (error + nat) \<times> mundo" where
  "crear_reserva ahora numero_vuelo documento_pasajero s =
     (case buscar_pasajero_por_documento s documento_pasajero of
        None \<Rightarrow> (Inl (ReservaException PasajeroNoEncontrado), s)
      | Some p \<Rightarrow>
         (case buscar_vuelo_por_numero s numero_vuelo of
            None \<Rightarrow> (Inl (ReservaException VueloNoEncontrado), s)
          | Some f \<Rightarrow>
             (case Reserva_init ahora f p s of (r, s1) \<Rightarrow>
               (case agregar_reserva f r s1 of
                  (Inl e, s2) \<Rightarrow> (Inl e, s2)
                | (Inr u, s2) \<Rightarrow> (Inr r, s2\<lparr>reservas_g := reservas_g s2 @ [r]\<rparr>)))))"

text \<open>
  \<open>_inicializar_datos\<close>: the sample passengers and flights; an entry whose constructor
  raises \<open>ValueError\<close> is reported and skipped.
\<close>

definition pasajeros_data :: "(pystr \<times> pystr \<times> pystr) list" where
  "pasajeros_data =
     [(str ''Juan'', str ''Perez'', str ''12345678''),
      (str ''Maria'', str ''Gomez'', str ''87654321''),
      (str ''Carlos'', str ''Lopez'', str ''11223344''),
      (str ''Ana'', str ''Martinez'', str ''44332211''),
      (str ''Pedro'', str ''Rodriguez'', str ''55667788''),
      (str ''Laura'', str ''Gonzalez'', str ''88776655''),
      (str ''Diego'', str ''Santos'', str ''99887766''),
      (str ''Isabel'', str ''Fernandez'', str ''66778899''),
      (str ''Andres'', str ''Rios'', str ''77889900''),
      (str ''Sofia'', str ''Diaz'', str ''00998877'')]"

definition vuelos_data :: "(pystr \<times> pystr \<times> pystr \<times> pystr \<times> int) list" where
  "vuelos_data =
     [(str ''V001'', str ''Buenos Aires'', str ''Madrid'', str ''2024-03-15'', 150),
      (str ''V002'', str ''Madrid'', str ''Paris'', str ''2024-03-16'', 120),
      (str ''V003'', str ''Paris'', str ''Londres'', str ''2024-03-17'', 100),
      (str ''AA1234'', str ''Buenos Aires'', str ''New York'', str ''2024-03-18'', 200),
      (str ''IB5678'', str ''Madrid'', str ''Barcelona'', str ''2024-03-19'', 80)]"

fun cargar_pasajeros :: "pylib \<Rightarrow> (pystr \<times> pystr \<times> pystr) list \<Rightarrow> mundo \<Rightarrow> mundo" where
  "cargar_pasajeros L [] s = s"
| "cargar_pasajeros L ((n, a, d) # xs) s =
     (case Pasajero_init L n a d of
        Inl e \<Rightarrow> cargar_pasajeros L xs s
      | Inr p \<Rightarrow> cargar_pasajeros L xs (s\<lparr>pasajeros_g := pasajeros_g s @ [p]\<rparr>))"

fun cargar_vuelos ::
  "pylib \<Rightarrow> (pystr \<times> pystr \<times> pystr \<times> pystr \<times> int) list \<Rightarrow> mundo \<Rightarrow> mundo" where
  "cargar_vuelos L [] s = s"
| "cargar_vuelos L ((n, ori, des, fe, cap) # xs) s =
     (case Vuelo_init L n ori des fe cap s of
        (Inl e, s1) \<Rightarrow> cargar_vuelos L xs s1
      | (Inr f, s1) \<Rightarrow> cargar_vuelos L xs (s1\<lparr>vuelos_g := vuelos_g s1 @ [f]\<rparr>))"

definition inicializar_datos :: "pylib \<Rightarrow> mundo \<Rightarrow> mundo" where
  "inicializar_datos L s = cargar_vuelos L vuelos_data (cargar_pasajeros L pasajeros_data s)"

text \<open>
  The first \<open>GestorReservas()\<close> of the process: three empty lists, then the sample data.
  Every later call returns the same instance untouched.
\<close>

definition GestorReservas_init :: "pylib \<Rightarrow> mundo" where
  "GestorReservas_init L =
     inicializar_datos L
       \<lparr>vuelos_obj = [], reservas_obj = [], pasajeros_g = [], vuelos_g = [], reservas_g = []\<rparr>"

section \<open>Sequences of calls\<close>

text \<open>
  A call a client of the core can make. Objects are named by address; a call that names an
  address with no object behind it cannot be written in Python and does nothing here.
  \<open>NuevaReserva ahora f n a d\<close> is \<open>Reserva(f, Pasajero(n, a, d))\<close>, which builds a
  reservation without attaching it anywhere. \<open>ejecutar\<close> gives the store after the call,
  whether it returned or raised.
\<close>

datatype operacion =
    NuevoVuelo pystr pystr pystr pystr int
  | NuevaReserva pystr nat pystr pystr pystr
  | AgregarReserva nat nat
  | Cancelar nat
  | Completar nat
  | AgregarPasajero pystr pystr pystr
  | CrearReserva pystr pystr pystr

fun ejecutar :: "pylib \<Rightarrow> operacion \<Rightarrow> mundo \<Rightarrow> mundo" where
  "ejecutar L (NuevoVuelo n ori des fe cap) s = snd (Vuelo_init L n ori des fe cap s)"
| "ejecutar L (NuevaReserva ahora f n a d) s =
     (if f < length (vuelos_obj s)
      then (case Pasajero_init L n a d of
              Inl e \<Rightarrow> s
            | Inr p \<Rightarrow> snd (Reserva_init ahora f p s))
      else s)"
| "ejecutar L (AgregarReserva f r) s =
     (if f < length (vuelos_obj s) \<and> r < length (reservas_obj s)
      then snd (agregar_reserva f r s) else s)"
| "ejecutar L (Cancelar r) s =
     (if r < length (reservas_obj s) then snd (cancelar r s) else s)"
| "ejecutar L (Completar r) s =
     (if r < length (reservas_obj s) then snd (completar r s) else s)"
| "ejecutar L (AgregarPasajero n a d) s = snd (agregar_pasajero L n a d s)"
| "ejecutar L (CrearReserva ahora nv doc) s = snd (crear_reserva ahora nv doc s)"

definition ejecutar_todas :: "pylib \<Rightarrow> operacion list \<Rightarrow> mundo \<Rightarrow> mundo" where
  "ejecutar_todas L ops s = foldl (\<lambda>t x. ejecutar L x t) s ops"

text \<open>The stores the program can be in: the seeded registry, then any calls.\<close>

definition alcanzable :: "pylib \<Rightarrow> operacion list \<Rightarrow> mundo" where
  "alcanzable L ops = ejecutar_todas L ops (GestorReservas_init L)"

section \<open>Well-formed stores\<close>

text \<open>Every reference held anywhere is the address of an object.\<close>

definition bien_formado :: "mundo \<Rightarrow> bool" where
  "bien_formado s \<longleftrightarrow>
     list_all (\<lambda>f. f < length (vuelos_obj s)) (vuelos_g s) \<and>
     list_all (\<lambda>r. r < length (reservas_obj s)) (reservas_g s) \<and>
     list_all (\<lambda>v. list_all (\<lambda>r. r < length (reservas_obj s)) (reservas v)) (vuelos_obj s) \<and>
     list_all (\<lambda>x. vuelo x < length (vuelos_obj s)) (reservas_obj s)"

text \<open>The documents of the ACTIVA reservations in the list of the flight at \<open>f\<close>.\<close>

definition documentos_activos :: "mundo \<Rightarrow> nat \<Rightarrow> pystr list" where
  "documentos_activos s f =
     map (\<lambda>r. documento (pasajero (reservas_obj s ! r))) (reservas_activas s f)"

definition invariante :: "mundo \<Rightarrow> bool" where
  "invariante s \<longleftrightarrow>
     bien_formado s \<and>
     list_all (\<lambda>f. 0 \<le> capacidad_disponible s f \<and> distinct (documentos_activos s f))
       [0..<length (vuelos_obj s)] \<and>
     list_all (\<lambda>p. strip (documento p) = documento p) (pasajeros_g s)"

section \<open>The rules of the specification for a passenger's fields\<close>


definition documento_valido :: "pylib \<Rightarrow> pystr \<Rightarrow> bool" where
  "documento_valido L d \<longleftrightarrow>
     5 \<le> length (strip d) \<and> length (strip d) \<le> 12 \<and> list_all (isdecimal L) (strip d)"

section \<open>The library on plain text\<close>

text \<open>
  An instance of the library for evaluating examples. On text made of ASCII characters and
  the accented letters of the name pattern it computes what CPython computes: the decimal
  digits there are \<open>0\<close> to \<open>9\<close>; the cased characters are the letters, and each lower-case
  one lies 32 above its upper-case one; \<open>str.title\<close> puts a cased character in lower case
  after a cased one and in title case otherwise. For dates it decides the ten-character
  form \<open>dddd-dd-dd\<close> (year from 1, month 1 to 12, a day of that month).
\<close>

definition letra_minuscula :: "nat \<Rightarrow> bool" where
  "letra_minuscula c \<longleftrightarrow> (97 \<le> c \<and> c \<le> 122) \<or> c \<in> {225, 233, 237, 243, 250, 241}"

definition letra_mayuscula :: "nat \<Rightarrow> bool" where
  "letra_mayuscula c \<longleftrightarrow> (65 \<le> c \<and> c \<le> 90) \<or> c \<in> {193, 201, 205, 211, 218, 209}"

definition a_mayuscula :: "nat \<Rightarrow> nat" where
  "a_mayuscula c = (if letra_minuscula c then c - 32 else c)"

definition a_minuscula :: "nat \<Rightarrow> nat" where
  "a_minuscula c = (if letra_mayuscula c then c + 32 else c)"

primrec title_desde :: "bool \<Rightarrow> pystr \<Rightarrow> pystr" where
  "title_desde previa [] = []"
| "title_desde previa (c # cs) =
     (if previa then a_minuscula c else a_mayuscula c)
       # title_desde (letra_minuscula c \<or> letra_mayuscula c) cs"

definition digito :: "nat \<Rightarrow> bool" where
  "digito c \<longleftrightarrow> 48 \<le> c \<and> c \<le> 57"

definition valor :: "pystr \<Rightarrow> nat" where
  "valor ds = foldl (\<lambda>n c. 10 * n + (c - 48)) 0 ds"

definition dias_del_mes :: "nat \<Rightarrow> nat \<Rightarrow> nat" where
  "dias_del_mes y m =
     (if m = 2 then (if y mod 4 = 0 \<and> (y mod 100 \<noteq> 0 \<or> y mod 400 = 0) then 29 else 28)
      else if m \<in> {4, 6, 9, 11} then 30 else 31)"

definition fecha_iso :: "pystr \<Rightarrow> bool" where
  "fecha_iso t \<longleftrightarrow>
     length t = 10 \<and> t ! 4 = 45 \<and> t ! 7 = 45 \<and>
     list_all digito (take 4 t) \<and> list_all digito (take 2 (drop 5 t)) \<and>
     list_all digito (drop 8 t) \<and>
     1 \<le> valor (take 4 t) \<and>
     1 \<le> valor (take 2 (drop 5 t)) \<and> valor (take 2 (drop 5 t)) \<le> 12 \<and>
     1 \<le> valor (drop 8 t) \<and>
     valor (drop 8 t) \<le> dias_del_mes (valor (take 4 t)) (valor (take 2 (drop 5 t)))"

definition lib_es :: pylib where
  "lib_es =
     \<lparr>isdecimal = digito, upper = map a_mayuscula, title = title_desde False,
      strptime_ok = fecha_iso\<rparr>"

text \<open>The store of the sample data, written out: what the seeded registry should be.\<close>

definition semilla :: mundo where
  "semilla =
     \<lparr>vuelos_obj =
        [\<lparr>numero = str ''V001'', origen = str ''Buenos Aires'', destino = str ''Madrid'',
          fecha = str ''2024-03-15'', capacidad_total = 150, reservas = []\<rparr>,
         \<lparr>numero = str ''V002'', origen = str ''Madrid'', destino = str ''Paris'',
          fecha = str ''2024-03-16'', capacidad_total = 120, reservas = []\<rparr>,
         \<lparr>numero = str ''V003'', origen = str ''Paris'', destino = str ''Londres'',
          fecha = str ''2024-03-17'', capacidad_total = 100, reservas = []\<rparr>,
         \<lparr>numero = str ''AA1234'', origen = str ''Buenos Aires'', destino = str ''New York'',
          fecha = str ''2024-03-18'', capacidad_total = 200, reservas = []\<rparr>,
         \<lparr>numero = str ''IB5678'', origen = str ''Madrid'', destino = str ''Barcelona'',
          fecha = str ''2024-03-19'', capacidad_total = 80, reservas = []\<rparr>],
      reservas_obj = [],
      pasajeros_g =
        [\<lparr>nombre = str ''Juan'', apellido = str ''Perez'', documento = str ''12345678''\<rparr>,
         \<lparr>nombre = str ''Maria'', apellido = str ''Gomez'', documento = str ''87654321''\<rparr>,
         \<lparr>nombre = str ''Carlos'', apellido = str ''Lopez'', documento = str ''11223344''\<rparr>,
         \<lparr>nombre = str ''Ana'', apellido = str ''Martinez'', documento = str ''44332211''\<rparr>,
         \<lparr>nombre = str ''Pedro'', apellido = str ''Rodriguez'', documento = str ''55667788''\<rparr>,
         \<lparr>nombre = str ''Laura'', apellido = str ''Gonzalez'', documento = str ''88776655''\<rparr>,
         \<lparr>nombre = str ''Diego'', apellido = str ''Santos'', documento = str ''99887766''\<rparr>,
         \<lparr>nombre = str ''Isabel'', apellido = str ''Fernandez'', documento = str ''66778899''\<rparr>,
         \<lparr>nombre = str ''Andres'', apellido = str ''Rios'', documento = str ''77889900''\<rparr>,
         \<lparr>nombre = str ''Sofia'', apellido = str ''Diaz'', documento = str ''00998877''\<rparr>],
      vuelos_g = [0, 1, 2, 3, 4],
      reservas_g = []\<rparr>"

text \<open>A store with one booking: the first sample passenger on flight V001.\<close>

definition ahora0 :: pystr where
  "ahora0 = str ''2024-03-01 10:00:00''"

definition con_reserva :: mundo where
  "con_reserva = alcanzable lib_es [CrearReserva ahora0 (str ''V001'') (str ''12345678'')]"

text \<open>
  The registry of the end-to-end scenario of the specification: flight V001 with two
  seats, and three of the sample passengers. \<open>lleno\<close> is that registry after two bookings,
  with no seat left.
\<close>

definition ahora1 :: pystr where
  "ahora1 = str ''2024-03-01 10:00:00''"

definition registro_chico :: mundo where
  "registro_chico =
     \<lparr>vuelos_obj =
        [\<lparr>numero = str ''V001'', origen = str ''Ciudad A'', destino = str ''Ciudad B'',
          fecha = str ''2024-03-01'', capacidad_total = 2, reservas = []\<rparr>],
      reservas_obj = [],
      pasajeros_g =
        [\<lparr>nombre = str ''Juan'', apellido = str ''Perez'', documento = str ''12345678''\<rparr>,
         \<lparr>nombre = str ''Maria'', apellido = str ''Gomez'', documento = str ''87654321''\<rparr>,
         \<lparr>nombre = str ''Carlos'', apellido = str ''Lopez'', documento = str ''11223344''\<rparr>],
      vuelos_g = [0],
      reservas_g = []\<rparr>"

definition lleno :: mundo where
  "lleno =
     ejecutar_todas lib_es
       [CrearReserva ahora1 (str ''V001'') (str ''12345678''),
        CrearReserva ahora1 (str ''V001'') (str ''87654321'')] registro_chico"

text \<open>
  The seeded registry after \<open>Reserva(v, Pasajero("Juan", "Perez", "12345678"))\<close> for the
  flight \<open>v\<close> at address 1 (V002): a reservation that is in no list yet.
\<close>

definition reserva_ajena :: mundo where
  "reserva_ajena =
     alcanzable lib_es [NuevaReserva ahora0 1 (str ''Juan'') (str ''Perez'') (str ''12345678'')]"

text \<open>
  The seeded registry after \<open>agregar_pasajero("Ana", "Lopez", " 12345678 ")\<close>: the document
  of the first sample passenger, with a space on either side.
\<close>

definition duplicado :: mundo where
  "duplicado =
     alcanzable lib_es [AgregarPasajero (str ''Ana'') (str ''Lopez'') (str '' 12345678 '')]"


section \<open>Trimming and the patterns\<close>

lemma strip_Nil: "strip [] = []"
  by (simp add: strip_def lstrip_def rstrip_def)

lemma strip_hd: "strip s \<noteq> [] \<Longrightarrow> \<not> isspace (hd (strip s))"
  unfolding strip_def lstrip_def by (rule hd_dropWhile)

lemma last_dropWhile_keep: "dropWhile P xs \<noteq> [] \<Longrightarrow> last (dropWhile P xs) = last xs"
  by (induction xs) (auto split: if_splits)

lemma strip_last: "strip s \<noteq> [] \<Longrightarrow> \<not> isspace (last (strip s))"
proof -
  assume ne: "strip s \<noteq> []"
  let ?u = "dropWhile isspace (rev s)"
  have u: "?u \<noteq> []"
  proof
    assume h: "?u = []"
    have "strip s = []"
      by (simp only: strip_def lstrip_def rstrip_def h rev.simps dropWhile.simps)
    with ne show False by simp
  qed
  have "last (strip s) = last (rev ?u)"
    using ne unfolding strip_def lstrip_def rstrip_def by (rule last_dropWhile_keep)
  also have "\<dots> = hd ?u" using u by (simp add: last_rev)
  finally show ?thesis using hd_dropWhile [OF u] by simp
qed

lemma strip_fixed:
  assumes "t \<noteq> []" "\<not> isspace (hd t)" "\<not> isspace (last t)"
  shows "strip t = t"
proof -
  have "dropWhile isspace (rev t) = rev t"
    using assms by (cases "rev t") (auto simp: hd_rev)
  moreover have "dropWhile isspace t = t" using assms by (cases t) auto
  ultimately show ?thesis by (simp add: strip_def lstrip_def rstrip_def)
qed

lemma strip_strip: "strip (strip s) = strip s"
proof (cases "strip s = []")
  case True
  then show ?thesis by (simp add: strip_Nil)
next
  case False
  then show ?thesis by (intro strip_fixed strip_hd strip_last)
qed

lemma isspace_10: "isspace 10"
  by (simp add: isspace_def)


text \<open>Trimmed text does not end in a line feed, so there \<open>$\<close> is the end of the text.\<close>

lemma re_documento_strip:
  "re_documento L (strip d) \<longleftrightarrow>
     5 \<le> length (strip d) \<and> length (strip d) \<le> 12 \<and> list_all (isdecimal L) (strip d)"
proof (cases "strip d = []")
  case True
  then show ?thesis by (simp add: re_documento_def dollar_def)
next
  case False
  then have "last (strip d) \<noteq> 10" using strip_last isspace_10 by metis
  then show ?thesis by (simp add: re_documento_def dollar_def)
qed


lemma validar_documento_iff:
  "validar_documento L d =
     (if documento_valido L d then Inr (strip d)
      else Inl (ValueError (if strip d = [] then DocumentoVacio else DocumentoDigitos)))"
  by (cases "d = []")
     (auto simp: validar_documento_def documento_valido_def re_documento_strip strip_Nil)

lemma validar_documento_strip: "validar_documento L d = Inr d' \<Longrightarrow> strip d' = d'"
  by (auto simp: validar_documento_iff strip_strip split: if_splits)

lemma Pasajero_init_documento: "Pasajero_init L n a d = Inr p \<Longrightarrow> strip (documento p) = documento p"
  by (auto simp: Pasajero_init_def split: sum.splits dest: validar_documento_strip)

text \<open>Unfolding rules for evaluating text on examples.\<close>

lemmas texto_simps =
  str_def strip_def lstrip_def rstrip_def isspace_def dollar_def clase_nombre_def
  lib_es_def digito_def letra_minuscula_def letra_mayuscula_def a_mayuscula_def
  a_minuscula_def

text \<open>On plain text no sample entry is rejected, and the registry starts as written out.\<close>

lemma cargar_pasajeros_es:
  "cargar_pasajeros lib_es pasajeros_data s =
     s\<lparr>pasajeros_g := pasajeros_g s @ pasajeros_g semilla\<rparr>"
  by (simp add: pasajeros_data_def semilla_def Pasajero_init_def validar_nombre_def
      validar_documento_def re_nombre_def re_documento_def texto_simps)

lemma GestorReservas_init_es: "GestorReservas_init lib_es = semilla"
  unfolding GestorReservas_init_def inicializar_datos_def cargar_pasajeros_es
  by (simp add: vuelos_data_def semilla_def Vuelo_init_def validar_numero_vuelo_def
      validar_ciudad_def validar_fecha_def validar_capacidad_def re_numero_vuelo_def
      fecha_iso_def valor_def dias_del_mes_def texto_simps)

section \<open>The passenger constructor\<close>



section \<open>The invariant of the store\<close>

lemma bien_formado_iff:
  "bien_formado s \<longleftrightarrow>
     (\<forall>f\<in>set (vuelos_g s). f < length (vuelos_obj s)) \<and>
     (\<forall>r\<in>set (reservas_g s). r < length (reservas_obj s)) \<and>
     (\<forall>f<length (vuelos_obj s). \<forall>r\<in>set (reservas (vuelos_obj s ! f)). r < length (reservas_obj s)) \<and>
     (\<forall>r<length (reservas_obj s). vuelo (reservas_obj s ! r) < length (vuelos_obj s))"
  unfolding bien_formado_def
  by (simp add: list_all_length all_set_conv_all_nth)

lemma invariante_iff:
  "invariante s \<longleftrightarrow>
     bien_formado s \<and>
     (\<forall>f<length (vuelos_obj s). 0 \<le> capacidad_disponible s f \<and> distinct (documentos_activos s f)) \<and>
     (\<forall>p\<in>set (pasajeros_g s). strip (documento p) = documento p)"
  by (auto simp: invariante_def list_all_iff)

lemma activas_cong:
  assumes "reservas (vuelos_obj s' ! f) = reservas (vuelos_obj s ! f)"
    and "\<forall>r\<in>set (reservas (vuelos_obj s ! f)). estado (reservas_obj s' ! r) = estado (reservas_obj s ! r)"
  shows "reservas_activas s' f = reservas_activas s f"
  using assms by (auto simp: reservas_activas_def intro: filter_cong)

lemma documentos_cong:
  assumes "reservas_activas s' f = reservas_activas s f"
    and "\<forall>r\<in>set (reservas (vuelos_obj s ! f)). pasajero (reservas_obj s' ! r) = pasajero (reservas_obj s ! r)"
  shows "documentos_activos s' f = documentos_activos s f"
  using assms by (auto simp: documentos_activos_def reservas_activas_def)

lemma capacidad_cong:
  assumes "reservas_activas s' f = reservas_activas s f"
    and "capacidad_total (vuelos_obj s' ! f) = capacidad_total (vuelos_obj s ! f)"
  shows "capacidad_disponible s' f = capacidad_disponible s f"
  using assms by (simp add: capacidad_disponible_def)

text \<open>A new reservation object: nothing that exists changes.\<close>

lemma Reserva_init_invariante:
  assumes "invariante s" "f < length (vuelos_obj s)"
  shows "invariante (snd (Reserva_init ahora f p s))"
proof -
  let ?s' = "snd (Reserva_init ahora f p s)"
  have wf: "bien_formado s" using assms by (simp add: invariante_iff)
  have v: "vuelos_obj ?s' = vuelos_obj s" by (simp add: Reserva_init_def)
  have old: "\<And>r. r < length (reservas_obj s) \<Longrightarrow> reservas_obj ?s' ! r = reservas_obj s ! r"
    by (simp add: Reserva_init_def nth_append)
  have refs: "\<And>g r. g < length (vuelos_obj s) \<Longrightarrow> r \<in> set (reservas (vuelos_obj s ! g)) \<Longrightarrow> r < length (reservas_obj s)"
    using wf by (auto simp: bien_formado_iff)
  have act: "\<And>g. g < length (vuelos_obj s) \<Longrightarrow> reservas_activas ?s' g = reservas_activas s g"
    by (rule activas_cong) (auto simp: v old refs)
  have doc: "\<And>g. g < length (vuelos_obj s) \<Longrightarrow> documentos_activos ?s' g = documentos_activos s g"
    by (rule documentos_cong) (auto simp: act old refs)
  have cap: "\<And>g. g < length (vuelos_obj s) \<Longrightarrow> capacidad_disponible ?s' g = capacidad_disponible s g"
    by (rule capacidad_cong) (auto simp: act v)
  have wf': "bien_formado ?s'"
    using wf assms(2) by (auto simp: bien_formado_iff Reserva_init_def nth_append less_Suc_eq)
  show ?thesis
    using assms(1) wf' act doc cap
    by (auto simp: invariante_iff v) (auto simp: Reserva_init_def)
qed

lemma Vuelo_init_cases:
  assumes "Vuelo_init L n ori des fe cap s = (res, s')"
  shows "(s' = s \<and> (\<exists>m. res = Inl (ValueError m))) \<or>
     (\<exists>v. res = Inr (length (vuelos_obj s)) \<and> s' = s\<lparr>vuelos_obj := vuelos_obj s @ [v]\<rparr> \<and>
          reservas v = [] \<and> 1 \<le> capacidad_total v \<and> capacidad_total v \<le> 1000)"
  using assms
  by (auto simp: Vuelo_init_def validar_numero_vuelo_def validar_ciudad_def validar_fecha_def
        validar_capacidad_def split: sum.splits if_splits)

lemma Vuelo_init_invariante:
  assumes "invariante s"
  shows "invariante (snd (Vuelo_init L n ori des fe cap s))"
proof -
  obtain res s' where eq: "Vuelo_init L n ori des fe cap s = (res, s')"
    by (cases "Vuelo_init L n ori des fe cap s")
  from Vuelo_init_cases [OF eq] show ?thesis
  proof
    assume "s' = s \<and> (\<exists>m. res = Inl (ValueError m))"
    then show ?thesis using assms eq by simp
  next
    assume "\<exists>v. res = Inr (length (vuelos_obj s)) \<and> s' = s\<lparr>vuelos_obj := vuelos_obj s @ [v]\<rparr> \<and>
          reservas v = [] \<and> 1 \<le> capacidad_total v \<and> capacidad_total v \<le> 1000"
    then obtain v where s': "s' = s\<lparr>vuelos_obj := vuelos_obj s @ [v]\<rparr>"
      and v: "reservas v = []" "1 \<le> capacidad_total v" by blast
    have wf: "bien_formado s" using assms by (simp add: invariante_iff)
    have old: "\<And>g. g < length (vuelos_obj s) \<Longrightarrow> vuelos_obj s' ! g = vuelos_obj s ! g"
      by (simp add: s' nth_append)
    have r: "reservas_obj s' = reservas_obj s" by (simp add: s')
    have act: "\<And>g. g < length (vuelos_obj s) \<Longrightarrow> reservas_activas s' g = reservas_activas s g"
      by (rule activas_cong) (auto simp: old r)
    have doc: "\<And>g. g < length (vuelos_obj s) \<Longrightarrow> documentos_activos s' g = documentos_activos s g"
      by (rule documentos_cong) (auto simp: act r)
    have cap: "\<And>g. g < length (vuelos_obj s) \<Longrightarrow> capacidad_disponible s' g = capacidad_disponible s g"
      by (rule capacidad_cong) (auto simp: act old)
    have new: "reservas_activas s' (length (vuelos_obj s)) = []"
      "capacidad_disponible s' (length (vuelos_obj s)) = capacidad_total v"
      "documentos_activos s' (length (vuelos_obj s)) = []"
      by (simp_all add: reservas_activas_def capacidad_disponible_def documentos_activos_def s' v)
    have wf': "bien_formado s'"
      using wf v by (auto simp: bien_formado_iff s' nth_append less_Suc_eq)
    have "invariante s'"
      using assms wf' act doc cap new v
      by (auto simp: invariante_iff s' less_Suc_eq)
    then show ?thesis using eq by simp
  qed
qed

lemma reserva_activa_de_iff:
  "reserva_activa_de h p rs \<longleftrightarrow>
     (\<exists>r\<in>set rs. documento (pasajero (h ! r)) = documento p \<and> estado (h ! r) = ACTIVA)"
  by (induction rs) (auto simp: Pasajero_eq_def)

lemma reserva_activa_de_documentos:
  "reserva_activa_de (reservas_obj s) p (reservas (vuelos_obj s ! f)) \<longleftrightarrow>
     documento p \<in> set (documentos_activos s f)"
  by (force simp: reserva_activa_de_iff documentos_activos_def reservas_activas_def)

text \<open>The store after a successful \<open>agregar_reserva\<close>.\<close>

lemma agregar_reserva_invariante:
  assumes "invariante s" "f < length (vuelos_obj s)" "r < length (reservas_obj s)"
  shows "invariante (snd (agregar_reserva f r s))"
proof (cases "capacidad_disponible s f \<le> 0 \<or>
    reserva_activa_de (reservas_obj s) (pasajero (reservas_obj s ! r)) (reservas (vuelos_obj s ! f))")
  case True
  then show ?thesis using assms(1) by (auto simp: agregar_reserva_def)
next
  case False
  let ?v = "(vuelos_obj s ! f)\<lparr>reservas := reservas (vuelos_obj s ! f) @ [r]\<rparr>"
  let ?s' = "s\<lparr>vuelos_obj := (vuelos_obj s)[f := ?v]\<rparr>"
  have s': "snd (agregar_reserva f r s) = ?s'" using False by (simp add: agregar_reserva_def)
  have wf: "bien_formado s" using assms by (simp add: invariante_iff)
  have pos: "0 < capacidad_disponible s f" using False by simp
  have nodoc: "documento (pasajero (reservas_obj s ! r)) \<notin> set (documentos_activos s f)"
    using False by (simp add: reserva_activa_de_documentos)
  have other: "\<And>g. g \<noteq> f \<Longrightarrow> vuelos_obj ?s' ! g = vuelos_obj s ! g" by simp
  have this_f: "vuelos_obj ?s' ! f = ?v" using assms(2) by simp
  have act_o: "\<And>g. g \<noteq> f \<Longrightarrow> reservas_activas ?s' g = reservas_activas s g"
    by (simp add: reservas_activas_def)
  have act_f: "reservas_activas ?s' f =
      reservas_activas s f @ (if estado (reservas_obj s ! r) = ACTIVA then [r] else [])"
    using assms(2) by (simp add: reservas_activas_def)
  have cap_o: "\<And>g. g \<noteq> f \<Longrightarrow> capacidad_disponible ?s' g = capacidad_disponible s g"
    by (simp add: capacidad_disponible_def act_o)
  have doc_o: "\<And>g. g \<noteq> f \<Longrightarrow> documentos_activos ?s' g = documentos_activos s g"
    by (simp add: documentos_activos_def act_o)
  have cap_f: "0 \<le> capacidad_disponible ?s' f"
    using pos assms(2) by (simp add: capacidad_disponible_def act_f)
  have doc_f: "distinct (documentos_activos ?s' f)"
    using assms(1,2) nodoc by (auto simp: documentos_activos_def act_f invariante_iff)
  have wf': "bien_formado ?s'"
    using wf assms(2,3) by (auto simp: bien_formado_iff nth_list_update)
  have "\<And>g. g < length (vuelos_obj s) \<Longrightarrow>
      0 \<le> capacidad_disponible ?s' g \<and> distinct (documentos_activos ?s' g)"
  proof -
    fix g assume "g < length (vuelos_obj s)"
    then show "0 \<le> capacidad_disponible ?s' g \<and> distinct (documentos_activos ?s' g)"
      using assms(1) cap_f doc_f cap_o [of g] doc_o [of g]
      by (cases "g = f") (auto simp: invariante_iff)
  qed
  then have "invariante ?s'" using assms(1) wf' by (simp add: invariante_iff)
  then show ?thesis by (simp add: s')
qed

text \<open>Leaving ACTIVA, by \<open>cancelar\<close> or \<open>completar\<close>.\<close>

lemma desactivar_invariante:
  assumes "invariante s" "r < length (reservas_obj s)" "e \<noteq> ACTIVA"
  shows "invariante (s\<lparr>reservas_obj := (reservas_obj s)[r := (reservas_obj s ! r)\<lparr>estado := e\<rparr>]\<rparr>)"
proof -
  let ?s' = "s\<lparr>reservas_obj := (reservas_obj s)[r := (reservas_obj s ! r)\<lparr>estado := e\<rparr>]\<rparr>"
  have wf: "bien_formado s" using assms by (simp add: invariante_iff)
  have act: "\<And>g. reservas_activas ?s' g = filter (\<lambda>x. x \<noteq> r) (reservas_activas s g)"
    using assms(2,3) by (auto simp: reservas_activas_def nth_list_update intro: filter_cong)
  have doc: "\<And>g. documentos_activos ?s' g =
      map (\<lambda>x. documento (pasajero (reservas_obj s ! x))) (filter (\<lambda>x. x \<noteq> r) (reservas_activas s g))"
    by (auto simp: documentos_activos_def act nth_list_update)
  have cap: "\<And>g. capacidad_disponible s g \<le> capacidad_disponible ?s' g"
  proof -
    fix g
    have "length (filter (\<lambda>x. x \<noteq> r) (reservas_activas s g)) \<le> length (reservas_activas s g)"
      by (rule length_filter_le)
    then show "capacidad_disponible s g \<le> capacidad_disponible ?s' g"
      by (simp add: capacidad_disponible_def act)
  qed
  have dis: "\<And>g. distinct (documentos_activos s g) \<Longrightarrow> distinct (documentos_activos ?s' g)"
  proof -
    fix g assume "distinct (documentos_activos s g)"
    then have "distinct (map (\<lambda>x. documento (pasajero (reservas_obj s ! x)))
        (filter (\<lambda>x. x \<noteq> r) (reservas_activas s g)))"
      unfolding documentos_activos_def by (rule distinct_map_filter)
    then show "distinct (documentos_activos ?s' g)" by (simp only: doc)
  qed
  have wf': "bien_formado ?s'"
    using wf assms(2) by (auto simp: bien_formado_iff nth_list_update)
  show ?thesis
    unfolding invariante_iff
  proof (intro conjI allI impI)
    show "bien_formado ?s'" by (rule wf')
  next
    fix g assume "g < length (vuelos_obj ?s')"
    then have g: "g < length (vuelos_obj s)" by simp
    then have "0 \<le> capacidad_disponible s g" using assms(1) by (simp add: invariante_iff)
    then show "0 \<le> capacidad_disponible ?s' g" using cap [of g] by linarith
  next
    fix g assume "g < length (vuelos_obj ?s')"
    then have g: "g < length (vuelos_obj s)" by simp
    then show "distinct (documentos_activos ?s' g)"
      using assms(1) by (intro dis) (simp add: invariante_iff)
  next
    show "\<forall>p\<in>set (pasajeros_g ?s'). strip (documento p) = documento p"
      using assms(1) by (simp add: invariante_iff)
  qed
qed

lemma cancelar_invariante:
  "invariante s \<Longrightarrow> r < length (reservas_obj s) \<Longrightarrow> invariante (snd (cancelar r s))"
  by (simp add: cancelar_def desactivar_invariante)

lemma completar_invariante:
  "invariante s \<Longrightarrow> r < length (reservas_obj s) \<Longrightarrow> invariante (snd (completar r s))"
  by (simp add: completar_def desactivar_invariante)

lemma pasajeros_g_invariante:
  assumes "invariante s" "strip (documento p) = documento p"
  shows "invariante (s\<lparr>pasajeros_g := pasajeros_g s @ [p]\<rparr>)"
  using assms
  by (simp add: invariante_def bien_formado_def capacidad_disponible_def
      documentos_activos_def reservas_activas_def)

lemma agregar_pasajero_invariante:
  assumes "invariante s"
  shows "invariante (snd (agregar_pasajero L n a d s))"
  using assms
  by (auto simp: agregar_pasajero_def pasajeros_g_invariante Pasajero_init_documento
      split: sum.splits)

lemma reservas_g_invariante:
  assumes "invariante s" "r < length (reservas_obj s)"
  shows "invariante (s\<lparr>reservas_g := reservas_g s @ [r]\<rparr>)"
  using assms
  by (simp add: invariante_def bien_formado_def capacidad_disponible_def
      documentos_activos_def reservas_activas_def)

lemma vuelos_g_invariante:
  assumes "invariante s" "f < length (vuelos_obj s)"
  shows "invariante (s\<lparr>vuelos_g := vuelos_g s @ [f]\<rparr>)"
  using assms
  by (simp add: invariante_def bien_formado_def capacidad_disponible_def
      documentos_activos_def reservas_activas_def)

lemma buscar_vuelo_valido:
  "bien_formado s \<Longrightarrow> buscar_vuelo_por_numero s nv = Some f \<Longrightarrow> f < length (vuelos_obj s)"
  by (auto simp: buscar_vuelo_por_numero_def bien_formado_iff find_Some_iff)

lemma agregar_reserva_reservas_obj: "reservas_obj (snd (agregar_reserva f r s)) = reservas_obj s"
  by (simp add: agregar_reserva_def)

lemma crear_reserva_encontrados:
  assumes "buscar_pasajero_por_documento s doc = Some p" "buscar_vuelo_por_numero s nv = Some f"
  shows "crear_reserva ahora nv doc s =
     (case fst (agregar_reserva f (length (reservas_obj s)) (snd (Reserva_init ahora f p s))) of
        Inl e \<Rightarrow>
          (Inl e, snd (agregar_reserva f (length (reservas_obj s)) (snd (Reserva_init ahora f p s))))
      | Inr u \<Rightarrow>
          (Inr (length (reservas_obj s)),
           (snd (agregar_reserva f (length (reservas_obj s)) (snd (Reserva_init ahora f p s))))
             \<lparr>reservas_g :=
                reservas_g (snd (agregar_reserva f (length (reservas_obj s))
                  (snd (Reserva_init ahora f p s)))) @ [length (reservas_obj s)]\<rparr>))"
  using assms
  by (simp add: crear_reserva_def Reserva_init_def split: prod.splits sum.splits)

lemma crear_reserva_invariante:
  assumes "invariante s"
  shows "invariante (snd (crear_reserva ahora nv doc s))"
proof (cases "buscar_pasajero_por_documento s doc")
  case None
  then show ?thesis using assms by (simp add: crear_reserva_def)
next
  case (Some p)
  note P = Some
  show ?thesis
  proof (cases "buscar_vuelo_por_numero s nv")
    case None
    then show ?thesis using assms P by (simp add: crear_reserva_def)
  next
    case (Some f)
    let ?r = "length (reservas_obj s)"
    let ?s1 = "snd (Reserva_init ahora f p s)"
    let ?s2 = "snd (agregar_reserva f ?r ?s1)"
    have f: "f < length (vuelos_obj s)"
      using assms Some by (auto simp: invariante_iff dest: buscar_vuelo_valido)
    have i1: "invariante ?s1" using assms f by (rule Reserva_init_invariante)
    have f1: "f < length (vuelos_obj ?s1)" using f by (simp add: Reserva_init_def)
    have r1: "?r < length (reservas_obj ?s1)" by (simp add: Reserva_init_def)
    have i2: "invariante ?s2" using i1 f1 r1 by (rule agregar_reserva_invariante)
    have r2: "?r < length (reservas_obj ?s2)" using r1 by (simp add: agregar_reserva_reservas_obj)
    have i3: "invariante (?s2\<lparr>reservas_g := reservas_g ?s2 @ [?r]\<rparr>)"
      using i2 r2 by (rule reservas_g_invariante)
    show ?thesis
      unfolding crear_reserva_encontrados [OF P Some]
      using i2 i3 by (cases "fst (agregar_reserva f ?r ?s1)") simp_all
  qed
qed

lemma cargar_pasajeros_invariante:
  "invariante s \<Longrightarrow> invariante (cargar_pasajeros L xs s)"
  by (induction L xs s rule: cargar_pasajeros.induct)
     (auto simp: pasajeros_g_invariante Pasajero_init_documento split: sum.splits)

lemma cargar_vuelos_invariante:
  "invariante s \<Longrightarrow> invariante (cargar_vuelos L xs s)"
proof (induction L xs s rule: cargar_vuelos.induct)
  case (1 L s)
  then show ?case by simp
next
  case (2 L n ori des fe cap xs s)
  obtain res s1 where eq: "Vuelo_init L n ori des fe cap s = (res, s1)"
    by (cases "Vuelo_init L n ori des fe cap s")
  have i1: "invariante s1" using Vuelo_init_invariante [OF "2.prems", of L n ori des fe cap] eq by simp
  show ?case
  proof (cases res)
    case (Inl e)
    then show ?thesis using "2.IH"(1) [OF eq [symmetric] _ i1] eq by simp
  next
    case (Inr f)
    from Vuelo_init_cases [OF eq] Inr have "f < length (vuelos_obj s1)" by auto
    then have "invariante (s1\<lparr>vuelos_g := vuelos_g s1 @ [f]\<rparr>)"
      using i1 by (intro vuelos_g_invariante)
    then show ?thesis using "2.IH"(2) [OF eq [symmetric] _] eq Inr by simp
  qed
qed

lemma invariante_vacio:
  "invariante \<lparr>vuelos_obj = [], reservas_obj = [], pasajeros_g = [], vuelos_g = [], reservas_g = []\<rparr>"
  by (simp add: invariante_def bien_formado_def)

lemma GestorReservas_init_invariante: "invariante (GestorReservas_init L)"
  unfolding GestorReservas_init_def inicializar_datos_def
  by (intro cargar_vuelos_invariante cargar_pasajeros_invariante invariante_vacio)

lemma ejecutar_invariante: "invariante s \<Longrightarrow> invariante (ejecutar L x s)"
proof (cases x)
  case (NuevaReserva ahora f n a d)
  assume "invariante s"
  then show ?thesis using NuevaReserva
    by (auto simp: Reserva_init_invariante split: sum.splits)
qed (simp_all add: Vuelo_init_invariante agregar_reserva_invariante cancelar_invariante
      completar_invariante agregar_pasajero_invariante crear_reserva_invariante)

lemma ejecutar_todas_invariante: "invariante s \<Longrightarrow> invariante (ejecutar_todas L ops s)"
  unfolding ejecutar_todas_def
  by (induction ops arbitrary: s) (simp_all add: ejecutar_invariante)

lemma alcanzable_invariante: "invariante (alcanzable L ops)"
  unfolding alcanzable_def
  by (intro ejecutar_todas_invariante GestorReservas_init_invariante)

section \<open>Equality of passengers and of flights\<close>

text \<open>
  Claim C8. Two passengers are equal exactly when their documents are equal, whatever their
  names; two flights are equal exactly when their numbers are equal.
\<close>

theorem igualdad_por_clave:
  "(Pasajero_eq p (ObjPasajero q) \<longleftrightarrow> documento p = documento q) \<and>
   (Pasajero_eq (p\<lparr>nombre := n, apellido := a\<rparr>) (ObjPasajero q) \<longleftrightarrow> Pasajero_eq p (ObjPasajero q)) \<and>
   (Vuelo_eq v (ObjVuelo w) \<longleftrightarrow> numero v = numero w)"
  by (simp add: Pasajero_eq_def Vuelo_eq_def)

section \<open>Adding a passenger\<close>



lemmas pasajero_simps =
  Pasajero_init_def validar_nombre_def validar_documento_def re_nombre_def re_documento_def


section \<open>The life of a reservation\<close>

text \<open>No call removes or replaces a reservation object, and only \<open>cancelar\<close> and
  \<open>completar\<close> write to one.\<close>

lemma crear_reserva_reservas_obj:
  "\<exists>xs. reservas_obj (snd (crear_reserva ahora nv doc s)) = reservas_obj s @ xs"
proof (cases "buscar_pasajero_por_documento s doc")
  case None
  then show ?thesis by (simp add: crear_reserva_def)
next
  case (Some p)
  note P = Some
  show ?thesis
  proof (cases "buscar_vuelo_por_numero s nv")
    case None
    then show ?thesis using P by (simp add: crear_reserva_def)
  next
    case (Some f)
    show ?thesis
      unfolding crear_reserva_encontrados [OF P Some]
      by (cases "fst (agregar_reserva f (length (reservas_obj s)) (snd (Reserva_init ahora f p s)))")
         (simp_all add: agregar_reserva_reservas_obj Reserva_init_def)
  qed
qed

lemma Vuelo_init_reservas_obj: "reservas_obj (snd (Vuelo_init L n ori des fe cap s)) = reservas_obj s"
  by (cases "Vuelo_init L n ori des fe cap s") (auto dest!: Vuelo_init_cases)

lemma agregar_pasajero_reservas_obj: "reservas_obj (snd (agregar_pasajero L n a d s)) = reservas_obj s"
  by (simp add: agregar_pasajero_def split: sum.splits)

lemma terminal_ejecutar:
  assumes "r < length (reservas_obj s)" "estado (reservas_obj s ! r) \<noteq> ACTIVA"
  shows "r < length (reservas_obj (ejecutar L x s)) \<and>
         reservas_obj (ejecutar L x s) ! r = reservas_obj s ! r"
proof (cases x)
  case (NuevoVuelo n ori des fe cap)
  then show ?thesis using assms by (simp add: Vuelo_init_reservas_obj)
next
  case (NuevaReserva ahora f n a d)
  then show ?thesis using assms by (auto simp: Reserva_init_def nth_append split: sum.splits)
next
  case (AgregarReserva f r')
  then show ?thesis using assms by (simp add: agregar_reserva_reservas_obj)
next
  case (Cancelar r')
  then show ?thesis using assms by (auto simp: cancelar_def nth_list_update)
next
  case (Completar r')
  then show ?thesis using assms by (auto simp: completar_def nth_list_update)
next
  case (AgregarPasajero n a d)
  then show ?thesis using assms by (simp add: agregar_pasajero_reservas_obj)
next
  case (CrearReserva ahora nv doc)
  obtain xs where "reservas_obj (snd (crear_reserva ahora nv doc s)) = reservas_obj s @ xs"
    using crear_reserva_reservas_obj by blast
  then show ?thesis using assms CrearReserva by (simp add: nth_append)
qed

lemma terminal_ejecutar_todas:
  assumes "r < length (reservas_obj s)" "estado (reservas_obj s ! r) \<noteq> ACTIVA"
  shows "r < length (reservas_obj (ejecutar_todas L ops s)) \<and>
         reservas_obj (ejecutar_todas L ops s) ! r = reservas_obj s ! r"
  using assms unfolding ejecutar_todas_def
proof (induction ops arbitrary: s)
  case Nil
  then show ?case by simp
next
  case (Cons x ops)
  have "r < length (reservas_obj (ejecutar L x s)) \<and>
        reservas_obj (ejecutar L x s) ! r = reservas_obj s ! r"
    using Cons.prems by (rule terminal_ejecutar)
  then show ?case using Cons.IH [of "ejecutar L x s"] Cons.prems by simp
qed

text \<open>
  Claim C5. A reservation is ACTIVA when constructed. On an ACTIVA reservation \<open>cancelar\<close>
  returns and leaves it CANCELADA, and \<open>completar\<close> returns and leaves it COMPLETADA. On a
  reservation that is not ACTIVA both raise the invalid-state error and change nothing.
  A reservation that is not ACTIVA keeps its state through every sequence of calls, so
  after \<open>cancelar\<close> or \<open>completar\<close> has returned once, neither returns again for it.
\<close>

theorem estados_de_reserva:
  assumes "r < length (reservas_obj s)"
  shows
    "estado (reservas_obj (snd (Reserva_init ahora v p s)) ! fst (Reserva_init ahora v p s)) = ACTIVA \<and>
     (estado (reservas_obj s ! r) = ACTIVA \<longrightarrow>
        fst (cancelar r s) = Inr () \<and>
        estado (reservas_obj (snd (cancelar r s)) ! r) = CANCELADA \<and>
        fst (completar r s) = Inr () \<and>
        estado (reservas_obj (snd (completar r s)) ! r) = COMPLETADA \<and>
        (\<forall>ops. fst (cancelar r (ejecutar_todas L ops (snd (cancelar r s)))) =
                 Inl (ReservaException SoloCancelarActivas) \<and>
               fst (completar r (ejecutar_todas L ops (snd (cancelar r s)))) =
                 Inl (ReservaException SoloCompletarActivas) \<and>
               fst (cancelar r (ejecutar_todas L ops (snd (completar r s)))) =
                 Inl (ReservaException SoloCancelarActivas) \<and>
               fst (completar r (ejecutar_todas L ops (snd (completar r s)))) =
                 Inl (ReservaException SoloCompletarActivas))) \<and>
     (estado (reservas_obj s ! r) \<noteq> ACTIVA \<longrightarrow>
        cancelar r s = (Inl (ReservaException SoloCancelarActivas), s) \<and>
        completar r s = (Inl (ReservaException SoloCompletarActivas), s) \<and>
        (\<forall>ops. estado (reservas_obj (ejecutar_todas L ops s) ! r) = estado (reservas_obj s ! r)))"
proof (intro conjI impI allI)
  show "estado (reservas_obj (snd (Reserva_init ahora v p s)) ! fst (Reserva_init ahora v p s)) = ACTIVA"
    by (simp add: Reserva_init_def)
next
  assume a: "estado (reservas_obj s ! r) = ACTIVA"
  show "fst (cancelar r s) = Inr ()" "fst (completar r s) = Inr ()"
    using a by (simp_all add: cancelar_def completar_def)
  show c: "estado (reservas_obj (snd (cancelar r s)) ! r) = CANCELADA"
    and d: "estado (reservas_obj (snd (completar r s)) ! r) = COMPLETADA"
    using a assms by (simp_all add: cancelar_def completar_def)
  have lc: "r < length (reservas_obj (snd (cancelar r s)))"
    and ld: "r < length (reservas_obj (snd (completar r s)))"
    using assms by (simp_all add: cancelar_def completar_def)
  fix ops
  have tc: "estado (reservas_obj (ejecutar_todas L ops (snd (cancelar r s))) ! r) = CANCELADA"
    using terminal_ejecutar_todas [OF lc, of L ops] c by simp
  have td: "estado (reservas_obj (ejecutar_todas L ops (snd (completar r s))) ! r) = COMPLETADA"
    using terminal_ejecutar_todas [OF ld, of L ops] d by simp
  show "fst (cancelar r (ejecutar_todas L ops (snd (cancelar r s)))) =
      Inl (ReservaException SoloCancelarActivas)"
    "fst (completar r (ejecutar_todas L ops (snd (cancelar r s)))) =
      Inl (ReservaException SoloCompletarActivas)"
    using tc by (simp_all add: cancelar_def completar_def)
  show "fst (cancelar r (ejecutar_todas L ops (snd (completar r s)))) =
      Inl (ReservaException SoloCancelarActivas)"
    "fst (completar r (ejecutar_todas L ops (snd (completar r s)))) =
      Inl (ReservaException SoloCompletarActivas)"
    using td by (simp_all add: cancelar_def completar_def)
next
  assume a: "estado (reservas_obj s ! r) \<noteq> ACTIVA"
  show "cancelar r s = (Inl (ReservaException SoloCancelarActivas), s)"
    "completar r s = (Inl (ReservaException SoloCompletarActivas), s)"
    using a by (simp_all add: cancelar_def completar_def)
  fix ops
  show "estado (reservas_obj (ejecutar_todas L ops s) ! r) = estado (reservas_obj s ! r)"
    using terminal_ejecutar_todas [OF assms a, of L ops] by simp
qed

text \<open>Unfolding rules for evaluating calls on examples.\<close>

lemmas gestor_simps =
  crear_reserva_def buscar_pasajero_por_documento_def buscar_vuelo_por_numero_def
  Reserva_init_def agregar_reserva_def capacidad_disponible_def reservas_activas_def
  Pasajero_eq_def cancelar_def completar_def

lemma alcanzable_es_Nil: "alcanzable lib_es [] = semilla"
  by (simp add: alcanzable_def ejecutar_todas_def GestorReservas_init_es)

lemma alcanzable_snoc: "alcanzable L (ops @ [x]) = ejecutar L x (alcanzable L ops)"
  by (simp add: alcanzable_def ejecutar_todas_def)

lemma con_reserva_es:
  "con_reserva =
     semilla\<lparr>vuelos_obj := (vuelos_obj semilla)[0 := (vuelos_obj semilla ! 0)\<lparr>reservas := [0]\<rparr>],
             reservas_obj := [\<lparr>vuelo = 0, pasajero = pasajeros_g semilla ! 0, estado = ACTIVA,
                               fecha_reserva = ahora0\<rparr>],
             reservas_g := [0]\<rparr>"
  using alcanzable_snoc [of lib_es "[]" "CrearReserva ahora0 (str ''V001'') (str ''12345678'')"]
  by (simp add: con_reserva_def alcanzable_es_Nil gestor_simps semilla_def str_def)

theorem estados_de_reserva_witness:
  "0 < length (reservas_obj con_reserva) \<and>
   estado (reservas_obj con_reserva ! 0) = ACTIVA \<and>
   fst (cancelar 0 con_reserva) = Inr () \<and>
   estado (reservas_obj (snd (cancelar 0 con_reserva)) ! 0) = CANCELADA \<and>
   cancelar 0 (snd (cancelar 0 con_reserva)) =
     (Inl (ReservaException SoloCancelarActivas), snd (cancelar 0 con_reserva)) \<and>
   completar 0 (snd (cancelar 0 con_reserva)) =
     (Inl (ReservaException SoloCompletarActivas), snd (cancelar 0 con_reserva)) \<and>
   estado (reservas_obj
     (ejecutar_todas lib_es [Completar 0, CrearReserva ahora0 (str ''V001'') (str ''12345678'')]
        (snd (cancelar 0 con_reserva))) ! 0) = CANCELADA"
proof -
  have l: "0 < length (reservas_obj con_reserva)" by (simp add: con_reserva_es)
  have a: "estado (reservas_obj con_reserva ! 0) = ACTIVA" by (simp add: con_reserva_es)
  have l': "0 < length (reservas_obj (snd (cancelar 0 con_reserva)))"
    by (simp add: con_reserva_es cancelar_def)
  note t1 = estados_de_reserva [OF l, of ahora0 0 "pasajeros_g semilla ! 0" lib_es]
  have c: "fst (cancelar 0 con_reserva) = Inr ()"
    "estado (reservas_obj (snd (cancelar 0 con_reserva)) ! 0) = CANCELADA"
    using t1 a by blast+
  then have n: "estado (reservas_obj (snd (cancelar 0 con_reserva)) ! 0) \<noteq> ACTIVA" by simp
  note t2 = estados_de_reserva [OF l', of ahora0 0 "pasajeros_g semilla ! 0" lib_es]
  have d: "cancelar 0 (snd (cancelar 0 con_reserva)) =
      (Inl (ReservaException SoloCancelarActivas), snd (cancelar 0 con_reserva))"
    "completar 0 (snd (cancelar 0 con_reserva)) =
      (Inl (ReservaException SoloCompletarActivas), snd (cancelar 0 con_reserva))"
    "estado (reservas_obj
       (ejecutar_todas lib_es [Completar 0, CrearReserva ahora0 (str ''V001'') (str ''12345678'')]
          (snd (cancelar 0 con_reserva))) ! 0) =
     estado (reservas_obj (snd (cancelar 0 con_reserva)) ! 0)"
    using t2 n by blast+
  show ?thesis using l a c d by simp
qed

section \<open>Booking\<close>

lemma Reserva_init_marco:
  assumes "bien_formado s" "g < length (vuelos_obj s)"
  shows "reservas_activas (snd (Reserva_init ahora f p s)) g = reservas_activas s g"
    and "documentos_activos (snd (Reserva_init ahora f p s)) g = documentos_activos s g"
    and "capacidad_disponible (snd (Reserva_init ahora f p s)) g = capacidad_disponible s g"
proof -
  let ?s' = "snd (Reserva_init ahora f p s)"
  have v: "vuelos_obj ?s' = vuelos_obj s" by (simp add: Reserva_init_def)
  have old: "\<And>r. r < length (reservas_obj s) \<Longrightarrow> reservas_obj ?s' ! r = reservas_obj s ! r"
    by (simp add: Reserva_init_def nth_append)
  have refs: "\<And>r. r \<in> set (reservas (vuelos_obj s ! g)) \<Longrightarrow> r < length (reservas_obj s)"
    using assms by (auto simp: bien_formado_iff)
  show act: "reservas_activas ?s' g = reservas_activas s g"
    by (rule activas_cong) (auto simp: v old refs)
  show "documentos_activos ?s' g = documentos_activos s g"
    by (rule documentos_cong) (auto simp: act old refs)
  show "capacidad_disponible ?s' g = capacidad_disponible s g"
    by (rule capacidad_cong) (auto simp: act v)
qed

text \<open>\<open>crear_reserva\<close> once passenger and flight are found, in terms of the store before.\<close>

lemma crear_reserva_eq:
  assumes "bien_formado s" "buscar_pasajero_por_documento s doc = Some p"
    "buscar_vuelo_por_numero s nv = Some f"
  shows "crear_reserva ahora nv doc s =
    (if capacidad_disponible s f \<le> 0
     then (Inl (ReservaException SinCapacidad), snd (Reserva_init ahora f p s))
     else if documento p \<in> set (documentos_activos s f)
     then (Inl (ReservaException ReservaActivaExistente), snd (Reserva_init ahora f p s))
     else (Inr (length (reservas_obj s)),
           (snd (Reserva_init ahora f p s))
             \<lparr>vuelos_obj := (vuelos_obj s)
                [f := (vuelos_obj s ! f)\<lparr>reservas := reservas (vuelos_obj s ! f) @ [length (reservas_obj s)]\<rparr>],
              reservas_g := reservas_g s @ [length (reservas_obj s)]\<rparr>))"
proof -
  let ?s1 = "snd (Reserva_init ahora f p s)"
  let ?r = "length (reservas_obj s)"
  have f: "f < length (vuelos_obj s)" using assms(1,3) by (rule buscar_vuelo_valido)
  have cap: "capacidad_disponible ?s1 f = capacidad_disponible s f"
    using assms(1) f by (rule Reserva_init_marco)
  have doc: "documentos_activos ?s1 f = documentos_activos s f"
    using assms(1) f by (rule Reserva_init_marco)
  have p: "pasajero (reservas_obj ?s1 ! ?r) = p" by (simp add: Reserva_init_def)
  have dup: "reserva_activa_de (reservas_obj ?s1) (pasajero (reservas_obj ?s1 ! ?r))
      (reservas (vuelos_obj ?s1 ! f)) \<longleftrightarrow> documento p \<in> set (documentos_activos s f)"
    unfolding reserva_activa_de_documentos p doc ..
  have v: "vuelos_obj ?s1 = vuelos_obj s" "reservas_g ?s1 = reservas_g s"
    by (simp_all add: Reserva_init_def)
  have dup': "reserva_activa_de (reservas_obj ?s1) (pasajero (reservas_obj ?s1 ! ?r))
      (reservas (vuelos_obj s ! f)) \<longleftrightarrow> documento p \<in> set (documentos_activos s f)"
    using dup by (simp only: v)
  show ?thesis
    unfolding crear_reserva_encontrados [OF assms(2,3)]
    by (simp add: agregar_reserva_def cap dup' v)
qed

text \<open>
  Claim C1. In a store whose references are all valid: when \<open>crear_reserva\<close> raises, the
  error is one of passenger not found, flight not found, no capacity, or passenger already
  booked; the registry's history, every flight (so the target flight's list), the
  passenger list and every reservation that existed are as before, and the reservation
  that may have been constructed is referred to from nowhere. When it returns, the new
  ACTIVA reservation for the passenger and the flight found has been appended to that
  flight's list and to the history, and its reference is returned. With passenger and
  flight found and no capacity available, it raises the capacity error.
\<close>

theorem crear_reserva_atomica:
  assumes "bien_formado s" and "crear_reserva ahora nv doc s = (res, s')"
  shows
    "(\<forall>e. res = Inl e \<longrightarrow>
        (\<exists>m\<in>{PasajeroNoEncontrado, VueloNoEncontrado, SinCapacidad, ReservaActivaExistente}.
           e = ReservaException m) \<and>
        reservas_g s' = reservas_g s \<and> vuelos_obj s' = vuelos_obj s \<and>
        pasajeros_g s' = pasajeros_g s \<and> vuelos_g s' = vuelos_g s \<and>
        take (length (reservas_obj s)) (reservas_obj s') = reservas_obj s \<and>
        list_all (\<lambda>r. r < length (reservas_obj s)) (reservas_g s') \<and>
        list_all (\<lambda>v. list_all (\<lambda>r. r < length (reservas_obj s)) (reservas v)) (vuelos_obj s')) \<and>
     (\<forall>r. res = Inr r \<longrightarrow>
        (\<exists>p f. buscar_pasajero_por_documento s doc = Some p \<and>
               buscar_vuelo_por_numero s nv = Some f \<and>
               r = length (reservas_obj s) \<and>
               reservas_obj s' = reservas_obj s @
                 [\<lparr>vuelo = f, pasajero = p, estado = ACTIVA, fecha_reserva = ahora\<rparr>] \<and>
               reservas (vuelos_obj s' ! f) = reservas (vuelos_obj s ! f) @ [r] \<and>
               reservas_g s' = reservas_g s @ [r] \<and>
               pasajeros_g s' = pasajeros_g s \<and> vuelos_g s' = vuelos_g s)) \<and>
     (\<forall>p f. buscar_pasajero_por_documento s doc = Some p \<and>
            buscar_vuelo_por_numero s nv = Some f \<and> capacidad_disponible s f \<le> 0 \<longrightarrow>
        res = Inl (ReservaException SinCapacidad))"
proof (cases "buscar_pasajero_por_documento s doc")
  case None
  then show ?thesis using assms by (auto simp: crear_reserva_def bien_formado_def)
next
  case (Some p)
  note P = Some
  show ?thesis
  proof (cases "buscar_vuelo_por_numero s nv")
    case None
    then show ?thesis using assms P by (auto simp: crear_reserva_def bien_formado_def)
  next
    case (Some f)
    have f: "f < length (vuelos_obj s)" using assms(1) Some by (rule buscar_vuelo_valido)
    show ?thesis
      using assms f P Some
      unfolding crear_reserva_eq [OF assms(1) P Some]
      by (auto simp: Reserva_init_def bien_formado_def split: if_splits)
  qed
qed

lemma lleno_es:
  "lleno =
     registro_chico
       \<lparr>vuelos_obj := [(vuelos_obj registro_chico ! 0)\<lparr>reservas := [0, 1]\<rparr>],
        reservas_obj :=
          [\<lparr>vuelo = 0, pasajero = pasajeros_g registro_chico ! 0, estado = ACTIVA,
            fecha_reserva = ahora1\<rparr>,
           \<lparr>vuelo = 0, pasajero = pasajeros_g registro_chico ! 1, estado = ACTIVA,
            fecha_reserva = ahora1\<rparr>],
        reservas_g := [0, 1]\<rparr>"
  by (simp add: lleno_def ejecutar_todas_def gestor_simps registro_chico_def str_def)

theorem crear_reserva_atomica_witness:
  "bien_formado lleno \<and>
   buscar_pasajero_por_documento lleno (str ''11223344'') = Some (pasajeros_g lleno ! 2) \<and>
   buscar_vuelo_por_numero lleno (str ''V001'') = Some 0 \<and>
   capacidad_disponible lleno 0 \<le> 0 \<and>
   fst (crear_reserva ahora1 (str ''V001'') (str ''11223344'') lleno) =
     Inl (ReservaException SinCapacidad) \<and>
   reservas_g (snd (crear_reserva ahora1 (str ''V001'') (str ''11223344'') lleno)) = [0, 1] \<and>
   vuelos_obj (snd (crear_reserva ahora1 (str ''V001'') (str ''11223344'') lleno)) = vuelos_obj lleno \<and>
   bien_formado registro_chico \<and>
   fst (crear_reserva ahora1 (str ''V001'') (str ''12345678'') registro_chico) = Inr 0 \<and>
   reservas_g (snd (crear_reserva ahora1 (str ''V001'') (str ''12345678'') registro_chico)) = [0] \<and>
   reservas (vuelos_obj (snd (crear_reserva ahora1 (str ''V001'') (str ''12345678'') registro_chico)) ! 0) = [0]"
proof -
  have w: "bien_formado lleno" "bien_formado registro_chico"
    by (simp_all add: lleno_es bien_formado_def registro_chico_def)
  have b: "buscar_pasajero_por_documento lleno (str ''11223344'') = Some (pasajeros_g lleno ! 2)"
    "buscar_vuelo_por_numero lleno (str ''V001'') = Some 0"
    "capacidad_disponible lleno 0 \<le> 0"
    by (simp_all add: lleno_es gestor_simps registro_chico_def str_def)
  have g: "reservas_g lleno = [0, 1]" "reservas_g registro_chico = []"
    "reservas (vuelos_obj registro_chico ! 0) = []"
    by (simp_all add: lleno_es registro_chico_def)
  have ok: "fst (crear_reserva ahora1 (str ''V001'') (str ''12345678'') registro_chico) = Inr 0"
    by (simp add: gestor_simps registro_chico_def str_def)
  note t1 = crear_reserva_atomica [OF w(1) surjective_pairing,
      of ahora1 "str ''V001''" "str ''11223344''"]
  note t2 = crear_reserva_atomica [OF w(2) surjective_pairing,
      of ahora1 "str ''V001''" "str ''12345678''"]
  have e: "fst (crear_reserva ahora1 (str ''V001'') (str ''11223344'') lleno) =
      Inl (ReservaException SinCapacidad)"
    using t1 b by blast
  have u: "reservas_g (snd (crear_reserva ahora1 (str ''V001'') (str ''11223344'') lleno)) =
      reservas_g lleno"
    "vuelos_obj (snd (crear_reserva ahora1 (str ''V001'') (str ''11223344'') lleno)) =
      vuelos_obj lleno"
    using t1 e by blast+
  have s: "reservas_g (snd (crear_reserva ahora1 (str ''V001'') (str ''12345678'') registro_chico)) =
      reservas_g registro_chico @ [0]"
    "reservas (vuelos_obj (snd (crear_reserva ahora1 (str ''V001'') (str ''12345678'') registro_chico)) ! 0) =
      reservas (vuelos_obj registro_chico ! 0) @ [0]"
    using t2 ok b
    by (auto simp: buscar_vuelo_por_numero_def registro_chico_def str_def)
  show ?thesis using w b e u s ok by (simp add: g)
qed

section \<open>Available capacity\<close>

text \<open>
  Claim C2. The available capacity of a flight is its total capacity minus the number of
  entries of its reservation list whose reservation is ACTIVA; it is a function of the
  list and the reservations' states as they are at the call, and a flight has no field
  that counts. For every flight object of every store the program can reach (the seeded
  registry, then any sequence of flight and reservation constructions,
  \<open>agregar_reserva\<close>, \<open>cancelar\<close>, \<open>completar\<close>, \<open>agregar_pasajero\<close> and \<open>crear_reserva\<close>)
  the available capacity is at least 0.
\<close>

theorem capacidad_disponible_alcanzable:
  assumes "f < length (vuelos_obj (alcanzable L ops))"
  shows
    "capacidad_disponible (alcanzable L ops) f =
       capacidad_total (vuelos_obj (alcanzable L ops) ! f) -
       int (card {i. i < length (reservas (vuelos_obj (alcanzable L ops) ! f)) \<and>
                     estado (reservas_obj (alcanzable L ops) !
                       (reservas (vuelos_obj (alcanzable L ops) ! f) ! i)) = ACTIVA}) \<and>
     0 \<le> capacidad_disponible (alcanzable L ops) f"
proof
  show "capacidad_disponible (alcanzable L ops) f =
       capacidad_total (vuelos_obj (alcanzable L ops) ! f) -
       int (card {i. i < length (reservas (vuelos_obj (alcanzable L ops) ! f)) \<and>
                     estado (reservas_obj (alcanzable L ops) !
                       (reservas (vuelos_obj (alcanzable L ops) ! f) ! i)) = ACTIVA})"
    by (simp add: capacidad_disponible_def reservas_activas_def length_filter_conv_card)
  show "0 \<le> capacidad_disponible (alcanzable L ops) f"
    using alcanzable_invariante [of L ops] assms by (simp add: invariante_iff)
qed

theorem capacidad_disponible_alcanzable_witness:
  "0 < length (vuelos_obj (alcanzable lib_es [CrearReserva ahora0 (str ''V001'') (str ''12345678'')])) \<and>
   capacidad_total (vuelos_obj
     (alcanzable lib_es [CrearReserva ahora0 (str ''V001'') (str ''12345678'')]) ! 0) = 150 \<and>
   capacidad_disponible
     (alcanzable lib_es [CrearReserva ahora0 (str ''V001'') (str ''12345678'')]) 0 = 149 \<and>
   card {i. i < length (reservas (vuelos_obj
              (alcanzable lib_es [CrearReserva ahora0 (str ''V001'') (str ''12345678'')]) ! 0)) \<and>
            estado (reservas_obj
              (alcanzable lib_es [CrearReserva ahora0 (str ''V001'') (str ''12345678'')]) !
                (reservas (vuelos_obj
                  (alcanzable lib_es [CrearReserva ahora0 (str ''V001'') (str ''12345678'')]) ! 0) ! i))
              = ACTIVA} = 1"
proof -
  have l: "0 < length (vuelos_obj (alcanzable lib_es [CrearReserva ahora0 (str ''V001'') (str ''12345678'')]))"
    unfolding con_reserva_def [symmetric] by (simp add: con_reserva_es semilla_def)
  have c: "capacidad_total (vuelos_obj
     (alcanzable lib_es [CrearReserva ahora0 (str ''V001'') (str ''12345678'')]) ! 0) = 150"
    "capacidad_disponible
     (alcanzable lib_es [CrearReserva ahora0 (str ''V001'') (str ''12345678'')]) 0 = 149"
    unfolding con_reserva_def [symmetric]
    by (simp_all add: con_reserva_es semilla_def capacidad_disponible_def reservas_activas_def)
  show ?thesis
    using capacidad_disponible_alcanzable [OF l] l c by simp
qed

section \<open>A reservation made for another flight\<close>

lemma cambiar_vuelo_campos:
  "estado ((h[r := (h ! r)\<lparr>vuelo := g\<rparr>]) ! i) = estado (h ! i) \<and>
   pasajero ((h[r := (h ! r)\<lparr>vuelo := g\<rparr>]) ! i) = pasajero (h ! i)"
  by (cases "r < length h") (simp_all add: nth_list_update list_update_beyond)

lemma cambiar_vuelo_marco:
  "reservas_activas (s\<lparr>reservas_obj := (reservas_obj s)[r := (reservas_obj s ! r)\<lparr>vuelo := g\<rparr>]\<rparr>) f =
     reservas_activas s f"
  "capacidad_disponible (s\<lparr>reservas_obj := (reservas_obj s)[r := (reservas_obj s ! r)\<lparr>vuelo := g\<rparr>]\<rparr>) f =
     capacidad_disponible s f"
  "reserva_activa_de ((reservas_obj s)[r := (reservas_obj s ! r)\<lparr>vuelo := g\<rparr>]) p rs =
     reserva_activa_de (reservas_obj s) p rs"
  by (simp_all add: reservas_activas_def capacidad_disponible_def reserva_activa_de_iff
      cambiar_vuelo_campos)

text \<open>
  Claim C9. \<open>agregar_reserva\<close> of a flight never reads the flight reference of the
  reservation it is given: whatever that reference is, the outcome is the same. For a
  reservation constructed for another flight it makes its own two checks, no capacity
  and an ACTIVA reservation of an equal passenger in its own list, and when both pass it
  appends the reservation to its own list; if the reservation is ACTIVA, the available
  capacity of the flight that took it drops by one.
\<close>

theorem agregar_reserva_ignora_vuelo:
  assumes "f < length (vuelos_obj s)" "r < length (reservas_obj s)"
    and "vuelo (reservas_obj s ! r) \<noteq> f"
  shows
    "(\<forall>g. fst (agregar_reserva f r
              (s\<lparr>reservas_obj := (reservas_obj s)[r := (reservas_obj s ! r)\<lparr>vuelo := g\<rparr>]\<rparr>)) =
           fst (agregar_reserva f r s)) \<and>
     agregar_reserva f r s =
       (if capacidad_disponible s f \<le> 0 then (Inl (ReservaException SinCapacidad), s)
        else if documento (pasajero (reservas_obj s ! r)) \<in> set (documentos_activos s f)
        then (Inl (ReservaException ReservaActivaExistente), s)
        else (Inr (),
              s\<lparr>vuelos_obj := (vuelos_obj s)
                 [f := (vuelos_obj s ! f)\<lparr>reservas := reservas (vuelos_obj s ! f) @ [r]\<rparr>]\<rparr>)) \<and>
     (fst (agregar_reserva f r s) = Inr () \<longrightarrow>
        reservas (vuelos_obj (snd (agregar_reserva f r s)) ! f) = reservas (vuelos_obj s ! f) @ [r] \<and>
        vuelo (reservas_obj (snd (agregar_reserva f r s)) ! r) \<noteq> f \<and>
        (estado (reservas_obj s ! r) = ACTIVA \<longrightarrow>
           capacidad_disponible (snd (agregar_reserva f r s)) f = capacidad_disponible s f - 1))"
proof (intro conjI allI impI)
  fix g
  show "fst (agregar_reserva f r
              (s\<lparr>reservas_obj := (reservas_obj s)[r := (reservas_obj s ! r)\<lparr>vuelo := g\<rparr>]\<rparr>)) =
        fst (agregar_reserva f r s)"
    using assms(2) by (simp add: agregar_reserva_def cambiar_vuelo_marco)
next
  show eq: "agregar_reserva f r s =
       (if capacidad_disponible s f \<le> 0 then (Inl (ReservaException SinCapacidad), s)
        else if documento (pasajero (reservas_obj s ! r)) \<in> set (documentos_activos s f)
        then (Inl (ReservaException ReservaActivaExistente), s)
        else (Inr (),
              s\<lparr>vuelos_obj := (vuelos_obj s)
                 [f := (vuelos_obj s ! f)\<lparr>reservas := reservas (vuelos_obj s ! f) @ [r]\<rparr>]\<rparr>))"
    by (simp add: agregar_reserva_def reserva_activa_de_documentos)
  assume ok: "fst (agregar_reserva f r s) = Inr ()"
  then have s': "snd (agregar_reserva f r s) =
      s\<lparr>vuelos_obj := (vuelos_obj s)
         [f := (vuelos_obj s ! f)\<lparr>reservas := reservas (vuelos_obj s ! f) @ [r]\<rparr>]\<rparr>"
    by (simp add: eq split: if_splits)
  show "reservas (vuelos_obj (snd (agregar_reserva f r s)) ! f) = reservas (vuelos_obj s ! f) @ [r]"
    using assms(1) by (simp add: s')
  show "vuelo (reservas_obj (snd (agregar_reserva f r s)) ! r) \<noteq> f"
    using assms(3) by (simp add: s')
  assume "estado (reservas_obj s ! r) = ACTIVA"
  then show "capacidad_disponible (snd (agregar_reserva f r s)) f = capacidad_disponible s f - 1"
    using assms(1) by (simp add: s' capacidad_disponible_def reservas_activas_def)
qed

lemma reserva_ajena_es:
  "reserva_ajena =
     semilla\<lparr>reservas_obj := [\<lparr>vuelo = 1, pasajero = pasajeros_g semilla ! 0, estado = ACTIVA,
                               fecha_reserva = ahora0\<rparr>]\<rparr>"
proof -
  have p: "Pasajero_init lib_es (str ''Juan'') (str ''Perez'') (str ''12345678'') =
      Inr (pasajeros_g semilla ! 0)"
    by (simp add: pasajero_simps texto_simps semilla_def)
  have l: "1 < length (vuelos_obj semilla)" by (simp add: semilla_def)
  show ?thesis
    using alcanzable_snoc [of lib_es "[]"
        "NuevaReserva ahora0 1 (str ''Juan'') (str ''Perez'') (str ''12345678'')"] l
    by (simp add: reserva_ajena_def alcanzable_es_Nil p Reserva_init_def) (simp add: semilla_def)
qed

theorem agregar_reserva_ignora_vuelo_witness:
  "0 < length (vuelos_obj reserva_ajena) \<and> 0 < length (reservas_obj reserva_ajena) \<and>
   vuelo (reservas_obj reserva_ajena ! 0) = 1 \<and>
   estado (reservas_obj reserva_ajena ! 0) = ACTIVA \<and>
   capacidad_disponible reserva_ajena 0 = 150 \<and>
   fst (agregar_reserva 0 0 reserva_ajena) = Inr () \<and>
   reservas (vuelos_obj (snd (agregar_reserva 0 0 reserva_ajena)) ! 0) = [0] \<and>
   vuelo (reservas_obj (snd (agregar_reserva 0 0 reserva_ajena)) ! 0) = 1 \<and>
   capacidad_disponible (snd (agregar_reserva 0 0 reserva_ajena)) 0 = 149 \<and>
   capacidad_disponible (snd (agregar_reserva 0 0 reserva_ajena)) 1 = 120"
proof -
  have h: "0 < length (vuelos_obj reserva_ajena)" "0 < length (reservas_obj reserva_ajena)"
    "vuelo (reservas_obj reserva_ajena ! 0) \<noteq> 0"
    by (simp_all add: reserva_ajena_es semilla_def)
  have e: "vuelo (reservas_obj reserva_ajena ! 0) = 1"
    "estado (reservas_obj reserva_ajena ! 0) = ACTIVA"
    "capacidad_disponible reserva_ajena 0 = 150"
    "reservas (vuelos_obj reserva_ajena ! 0) = []"
    "documentos_activos reserva_ajena 0 = []"
    by (simp_all add: reserva_ajena_es semilla_def capacidad_disponible_def reservas_activas_def
        documentos_activos_def)
  note t = agregar_reserva_ignora_vuelo [OF h]
  from t have t2: "agregar_reserva 0 0 reserva_ajena =
       (if capacidad_disponible reserva_ajena 0 \<le> 0
        then (Inl (ReservaException SinCapacidad), reserva_ajena)
        else if documento (pasajero (reservas_obj reserva_ajena ! 0))
                  \<in> set (documentos_activos reserva_ajena 0)
        then (Inl (ReservaException ReservaActivaExistente), reserva_ajena)
        else (Inr (),
              reserva_ajena\<lparr>vuelos_obj := (vuelos_obj reserva_ajena)
                 [0 := (vuelos_obj reserva_ajena ! 0)
                    \<lparr>reservas := reservas (vuelos_obj reserva_ajena ! 0) @ [0]\<rparr>]\<rparr>))"
    by blast
  have ok: "fst (agregar_reserva 0 0 reserva_ajena) = Inr ()"
    unfolding t2 using e by simp
  from t ok have t3:
    "reservas (vuelos_obj (snd (agregar_reserva 0 0 reserva_ajena)) ! 0) =
       reservas (vuelos_obj reserva_ajena ! 0) @ [0]"
    "estado (reservas_obj reserva_ajena ! 0) = ACTIVA \<longrightarrow>
       capacidad_disponible (snd (agregar_reserva 0 0 reserva_ajena)) 0 =
       capacidad_disponible reserva_ajena 0 - 1"
    by blast+
  have r: "reservas (vuelos_obj (snd (agregar_reserva 0 0 reserva_ajena)) ! 0) = [0]"
    "capacidad_disponible (snd (agregar_reserva 0 0 reserva_ajena)) 0 = 149"
    using t3 e by simp_all
  have o: "vuelo (reservas_obj (snd (agregar_reserva 0 0 reserva_ajena)) ! 0) = 1"
    "capacidad_disponible (snd (agregar_reserva 0 0 reserva_ajena)) 1 = 120"
    by (simp_all add: reserva_ajena_es semilla_def agregar_reserva_def capacidad_disponible_def
        reservas_activas_def Pasajero_eq_def)
  show ?thesis using h e ok r o by simp
qed

section \<open>Documents in the registry\<close>

lemma duplicado_es:
  "duplicado =
     semilla\<lparr>pasajeros_g := pasajeros_g semilla @
       [\<lparr>nombre = str ''Ana'', apellido = str ''Lopez'', documento = str ''12345678''\<rparr>]\<rparr>"
proof -
  have p: "Pasajero_init lib_es (str ''Ana'') (str ''Lopez'') (str '' 12345678 '') =
      Inr \<lparr>nombre = str ''Ana'', apellido = str ''Lopez'', documento = str ''12345678''\<rparr>"
    by (simp add: pasajero_simps texto_simps)
  have n: "\<not> list_ex (\<lambda>p. documento p = str '' 12345678 '') (pasajeros_g semilla)"
    by (simp add: semilla_def str_def)
  show ?thesis
    using alcanzable_snoc [of lib_es "[]"
        "AgregarPasajero (str ''Ana'') (str ''Lopez'') (str '' 12345678 '')"]
    by (simp add: duplicado_def alcanzable_es_Nil agregar_pasajero_def p n)
qed

text \<open>
  Claim C3, at the input where the program departs from it. The registry holds Juan Perez
  with document 12345678. \<open>agregar_pasajero("Ana", "Lopez", " 12345678 ")\<close> compares the
  untrimmed text with the stored documents, finds none equal, and stores a second
  passenger whose document, trimmed by the constructor, is 12345678 as well: two different
  passengers of the registry with one document.
\<close>

theorem documento_repetido:
  "fst (agregar_pasajero lib_es (str ''Ana'') (str ''Lopez'') (str '' 12345678 '')
         (GestorReservas_init lib_es)) =
     Inr \<lparr>nombre = str ''Ana'', apellido = str ''Lopez'', documento = str ''12345678''\<rparr> \<and>
   length (pasajeros_g duplicado) = 11 \<and>
   pasajeros_g duplicado ! 0 =
     \<lparr>nombre = str ''Juan'', apellido = str ''Perez'', documento = str ''12345678''\<rparr> \<and>
   pasajeros_g duplicado ! 10 =
     \<lparr>nombre = str ''Ana'', apellido = str ''Lopez'', documento = str ''12345678''\<rparr> \<and>
   documento (pasajeros_g duplicado ! 0) = documento (pasajeros_g duplicado ! 10) \<and>
   pasajeros_g duplicado ! 0 \<noteq> pasajeros_g duplicado ! 10"
proof -
  have p: "Pasajero_init lib_es (str ''Ana'') (str ''Lopez'') (str '' 12345678 '') =
      Inr \<lparr>nombre = str ''Ana'', apellido = str ''Lopez'', documento = str ''12345678''\<rparr>"
    by (simp add: pasajero_simps texto_simps)
  have n: "\<not> list_ex (\<lambda>p. documento p = str '' 12345678 '') (pasajeros_g semilla)"
    by (simp add: semilla_def str_def)
  have "fst (agregar_pasajero lib_es (str ''Ana'') (str ''Lopez'') (str '' 12345678 '')
         (GestorReservas_init lib_es)) =
     Inr \<lparr>nombre = str ''Ana'', apellido = str ''Lopez'', documento = str ''12345678''\<rparr>"
    by (simp add: GestorReservas_init_es agregar_pasajero_def p n)
  then show ?thesis
    by (simp add: duplicado_es) (simp add: semilla_def str_def)
qed

section \<open>Looking up passengers and flights\<close>

text \<open>
  Claim C10. \<open>buscar_pasajero_por_documento\<close> and \<open>buscar_vuelo_por_numero\<close> compare the
  text passed, as it is, with the stored keys. Each returns \<open>None\<close> exactly when no stored
  key equals that text, and otherwise the first entry, in the order of insertion, whose
  key equals it. So whatever normalisation the stored keys are fixed points of (trimming,
  upper case), a text that is not its own normal form is not found, even when its normal
  form is a stored key; and in every store the program can reach, a document passed with
  white space around it is not found.
\<close>

theorem busquedas_literales:
  "(buscar_pasajero_por_documento s q = None \<longleftrightarrow>
      (\<forall>p\<in>set (pasajeros_g s). documento p \<noteq> q)) \<and>
   (\<forall>p. buscar_pasajero_por_documento s q = Some p \<longleftrightarrow>
      (\<exists>i<length (pasajeros_g s). pasajeros_g s ! i = p \<and> documento p = q \<and>
         (\<forall>j<i. documento (pasajeros_g s ! j) \<noteq> q))) \<and>
   (buscar_vuelo_por_numero s q = None \<longleftrightarrow>
      (\<forall>f\<in>set (vuelos_g s). numero (vuelos_obj s ! f) \<noteq> q)) \<and>
   (\<forall>f. buscar_vuelo_por_numero s q = Some f \<longleftrightarrow>
      (\<exists>i<length (vuelos_g s). vuelos_g s ! i = f \<and> numero (vuelos_obj s ! f) = q \<and>
         (\<forall>j<i. numero (vuelos_obj s ! (vuelos_g s ! j)) \<noteq> q))) \<and>
   (\<forall>norm. (\<forall>p\<in>set (pasajeros_g s). norm (documento p) = documento p) \<and> norm q \<noteq> q \<longrightarrow>
      buscar_pasajero_por_documento s q = None) \<and>
   (\<forall>norm. (\<forall>f\<in>set (vuelos_g s). norm (numero (vuelos_obj s ! f)) = numero (vuelos_obj s ! f)) \<and>
       norm q \<noteq> q \<longrightarrow>
      buscar_vuelo_por_numero s q = None) \<and>
   (\<forall>ops. strip q \<noteq> q \<longrightarrow> buscar_pasajero_por_documento (alcanzable L ops) q = None)"
proof (intro conjI allI impI)
  show "buscar_pasajero_por_documento s q = None \<longleftrightarrow>
      (\<forall>p\<in>set (pasajeros_g s). documento p \<noteq> q)"
    by (auto simp: buscar_pasajero_por_documento_def find_None_iff)
  show "buscar_vuelo_por_numero s q = None \<longleftrightarrow>
      (\<forall>f\<in>set (vuelos_g s). numero (vuelos_obj s ! f) \<noteq> q)"
    by (auto simp: buscar_vuelo_por_numero_def find_None_iff)
next
  fix p
  show "buscar_pasajero_por_documento s q = Some p \<longleftrightarrow>
      (\<exists>i<length (pasajeros_g s). pasajeros_g s ! i = p \<and> documento p = q \<and>
         (\<forall>j<i. documento (pasajeros_g s ! j) \<noteq> q))"
    unfolding buscar_pasajero_por_documento_def find_Some_iff by auto
next
  fix f
  show "buscar_vuelo_por_numero s q = Some f \<longleftrightarrow>
      (\<exists>i<length (vuelos_g s). vuelos_g s ! i = f \<and> numero (vuelos_obj s ! f) = q \<and>
         (\<forall>j<i. numero (vuelos_obj s ! (vuelos_g s ! j)) \<noteq> q))"
    unfolding buscar_vuelo_por_numero_def find_Some_iff by auto
next
  fix norm :: "pystr \<Rightarrow> pystr"
  assume "(\<forall>p\<in>set (pasajeros_g s). norm (documento p) = documento p) \<and> norm q \<noteq> q"
  then show "buscar_pasajero_por_documento s q = None"
    by (auto simp: buscar_pasajero_por_documento_def find_None_iff)
next
  fix norm :: "pystr \<Rightarrow> pystr"
  assume "(\<forall>f\<in>set (vuelos_g s). norm (numero (vuelos_obj s ! f)) = numero (vuelos_obj s ! f)) \<and>
       norm q \<noteq> q"
  then show "buscar_vuelo_por_numero s q = None"
    by (auto simp: buscar_vuelo_por_numero_def find_None_iff)
next
  fix ops
  assume q: "strip q \<noteq> q"
  have "\<forall>p\<in>set (pasajeros_g (alcanzable L ops)). strip (documento p) = documento p"
    using alcanzable_invariante [of L ops] by (simp add: invariante_iff)
  with q show "buscar_pasajero_por_documento (alcanzable L ops) q = None"
    by (auto simp: buscar_pasajero_por_documento_def find_None_iff)
qed

theorem busquedas_literales_witness:
  "buscar_vuelo_por_numero semilla (str ''V001'') = Some 0 \<and>
   upper lib_es (strip (str ''v001'')) = str ''V001'' \<and>
   buscar_vuelo_por_numero semilla (str ''v001'') = None \<and>
   upper lib_es (strip (str '' V001'')) = str ''V001'' \<and>
   buscar_vuelo_por_numero semilla (str '' V001'') = None \<and>
   strip (str ''12345678 '') = str ''12345678'' \<and>
   buscar_pasajero_por_documento (alcanzable lib_es []) (str ''12345678 '') = None \<and>
   buscar_pasajero_por_documento duplicado (str ''12345678'') = Some (pasajeros_g duplicado ! 0) \<and>
   documento (pasajeros_g duplicado ! 10) = str ''12345678''"
proof -
  have fixed: "\<forall>f\<in>set (vuelos_g semilla).
      upper lib_es (strip (numero (vuelos_obj semilla ! f))) = numero (vuelos_obj semilla ! f)"
    by (simp add: semilla_def texto_simps)
  have n: "upper lib_es (strip (str ''v001'')) = str ''V001''"
    "upper lib_es (strip (str '' V001'')) = str ''V001''"
    "strip (str ''12345678 '') = str ''12345678''"
    by (simp_all add: texto_simps)
  have ne: "upper lib_es (strip (str ''v001'')) \<noteq> str ''v001''"
    "upper lib_es (strip (str '' V001'')) \<noteq> str '' V001''"
    "strip (str ''12345678 '') \<noteq> str ''12345678 ''"
    by (simp_all add: texto_simps)
  note pasajero_blancos =
    busquedas_literales [THEN conjunct2, THEN conjunct2, THEN conjunct2, THEN conjunct2,
      THEN conjunct2, THEN conjunct2, THEN spec, THEN mp]
  note primero =
    busquedas_literales [THEN conjunct2, THEN conjunct1, THEN spec, THEN iffD2]
  have a: "buscar_vuelo_por_numero semilla (str ''v001'') = None"
  proof -
    from busquedas_literales [of semilla "str ''v001''" lib_es]
    have "\<forall>norm. (\<forall>f\<in>set (vuelos_g semilla).
          norm (numero (vuelos_obj semilla ! f)) = numero (vuelos_obj semilla ! f)) \<and>
        norm (str ''v001'') \<noteq> str ''v001'' \<longrightarrow>
        buscar_vuelo_por_numero semilla (str ''v001'') = None"
      by (elim conjE)
    from this [THEN spec, of "\<lambda>t. upper lib_es (strip t)"] fixed ne(1)
    show ?thesis by (elim impE) (intro conjI)
  qed
  have b: "buscar_vuelo_por_numero semilla (str '' V001'') = None"
  proof -
    from busquedas_literales [of semilla "str '' V001''" lib_es]
    have "\<forall>norm. (\<forall>f\<in>set (vuelos_g semilla).
          norm (numero (vuelos_obj semilla ! f)) = numero (vuelos_obj semilla ! f)) \<and>
        norm (str '' V001'') \<noteq> str '' V001'' \<longrightarrow>
        buscar_vuelo_por_numero semilla (str '' V001'') = None"
      by (elim conjE)
    from this [THEN spec, of "\<lambda>t. upper lib_es (strip t)"] fixed ne(2)
    show ?thesis by (elim impE) (intro conjI)
  qed
  have c: "buscar_pasajero_por_documento (alcanzable lib_es []) (str ''12345678 '') = None"
    by (rule pasajero_blancos) (rule ne)
  have d0: "0 < length (pasajeros_g duplicado)"
    "documento (pasajeros_g duplicado ! 0) = str ''12345678''"
    "documento (pasajeros_g duplicado ! 10) = str ''12345678''"
    by (simp_all add: duplicado_es semilla_def)
  have d: "buscar_pasajero_por_documento duplicado (str ''12345678'') =
      Some (pasajeros_g duplicado ! 0)"
    by (rule primero) (use d0 in \<open>intro exI [of _ 0]; simp\<close>)
  have e: "buscar_vuelo_por_numero semilla (str ''V001'') = Some 0"
    by (simp add: buscar_vuelo_por_numero_def semilla_def str_def)
  show ?thesis using a b c d e n d0(3) by simp
qed

section \<open>One active reservation per flight and passenger\<close>












end
